theory Spec2Isabelle
  imports Main "HOL-Library.AList"
begin

section \<open>Data model of \<open>RoborockService\<close>\<close>

text \<open>
  The service of \<^verbatim>\<open>src/roborockService.ts\<close> is a class whose fields are mutated by its
  methods and whose methods call into collaborators (logger, message processor, client
  router, local client, IoT API, Node timers). A method is modelled as a function on a
  record of the fields. Every call to a collaborator is appended, in program order, to the
  field \<open>trace\<close>; where the service inspects what a collaborator returns (clean-mode data,
  network info, connection state, a room id), or awaits or returns the promise of a
  collaborator's call, the returned value or the outcome of the call is a parameter of the
  model. What a method throws, or the rejection it passes on, is the \<open>Inl\<close> of its result.
\<close>

type_synonym duid = string
type_synonym userData = string
type_synonym clientRouter = nat
type_synonym timer = nat

text \<open>\<open>ServiceArea.Area\<close>: the service reads \<open>areaId\<close> only.\<close>

record area =
  areaId :: nat
  mapId :: "nat option"

text \<open>\<open>RequestMessage\<close>: method, optional parameters, security flag.\<close>

record requestMessage =
  methodName :: string   \<comment> \<open>the field \<open>method\<close> of the source\<close>
  params :: "string option"
  secure :: bool

text \<open>\<open>CleanModeSetting\<close>.\<close>

record cleanModeSetting =
  suctionPower :: nat
  waterFlow :: nat
  distance_off :: nat
  mopRoute :: "nat option"

text \<open>\<open>Device\<close>: the fields the service reads.\<close>

record device =
  dDuid :: duid
  localKey :: string
  pv :: string

text \<open>The network info a processor returns: \<open>ip\<close> may be absent.\<close>

record networkInfo =
  ip :: "string option"

text \<open>
  A \<open>MessageProcessor\<close> is constructed from the client router; a local client is what
  \<open>registerClient(duid, ip)\<close> of the router returns; the IoT API is what the factory builds
  from the user data.
\<close>

datatype messageProcessor = MessageProcessor clientRouter
datatype client = LocalNetworkClient clientRouter duid string
datatype iotApi = RoborockIoTApi userData

datatype level = Debug | Notice | Warn | Error

datatype error =
  FailedCleanModeData   \<comment> \<open>\<open>Error('Failed to retrieve clean mode data')\<close>\<close>
| LocalClientNotConnected   \<comment> \<open>\<open>Error('Local client did not connect after 10 attempts, something is wrong')\<close>\<close>
| Rejected string   \<comment> \<open>a rejection coming from a collaborator\<close>

datatype procCall =
  StartClean duid
| StartRoomClean duid "nat list" nat
| PauseClean duid
| GotoDock duid
| ResumeClean duid
| FindMyRobot duid
| GetCustomMessage duid requestMessage
| SendCustomMessage duid requestMessage
| GetCleanModeData duid
| GetDeviceStatus duid
| GetDeviceStatusOverMQTT duid
| GetNetworkInfo duid
| InjectLogger
| RegisterListener duid

datatype routerCall =
  RegisterDevice duid string string
| RegisterMessageListener
| RouterConnect
| RouterDisconnect
| RouterIsConnected
| RegisterClient duid string
| RouterGet duid requestMessage

datatype clientCall = ClientConnect | ClientIsConnected | ClientDisconnect

text \<open>The closure handed to \<open>setInterval\<close>: it captures the processor looked up at activation.\<close>

datatype tick =
  StatusTick "messageProcessor option" duid
| StatusTickMQTT "messageProcessor option" duid

datatype event =
  Log level string
| Proc messageProcessor procCall
| Router clientRouter routerCall
| Client client clientCall
| Iot iotApi nat   \<comment> \<open>\<open>iotApi.startScene(id)\<close>\<close>
| Sleep nat   \<comment> \<open>\<open>await this.sleep(ms)\<close>\<close>
| SetInterval timer nat
| ClearInterval timer
| DeviceNotify duid string

text \<open>
  \<open>RoomIndexMap\<close> (\<^verbatim>\<open>model/roomIndexMap.ts\<close>) is not among the sources; the service only calls
  its \<open>getRoomId(areaId)\<close>, which yields a room id or \<open>undefined\<close>. The map is the function
  that this call computes.
\<close>

type_synonym roomIndexMap = "nat \<Rightarrow> nat option"

text \<open>
  The fields of the class. The two \<open>Map\<close>s that \<open>stopService\<close> iterates are association
  lists in insertion order (\<open>AList.update\<close> is \<open>Map.set\<close>, \<open>map_of\<close> is \<open>Map.get\<close>,
  \<open>AList.delete\<close> is \<open>Map.delete\<close>); the others are only read by key. \<open>activeTimers\<close> and
  \<open>nextTimer\<close> are the timer table of the runtime: \<open>setInterval\<close> adds a fresh handle,
  \<open>clearInterval\<close> removes one.
\<close>

record service =
  iotApi :: "iotApi option"
  userdata :: "userData option"
  deviceNotify :: bool
  messageClient :: "clientRouter option"
  messageProcessorMap :: "(duid \<times> messageProcessor) list"
  ipMap :: "duid \<rightharpoonup> string"
  localClientMap :: "(duid \<times> client) list"
  mqttAlwaysOnDevices :: "duid \<rightharpoonup> bool"
  clientManager :: "(string \<Rightarrow> userData \<Rightarrow> clientRouter) option"
  refreshInterval :: nat
  requestDeviceStatusInterval :: "timer option"
  supportedAreas :: "duid \<rightharpoonup> area list"
  supportedRoutines :: "duid \<rightharpoonup> area list"
  selectedAreas :: "duid \<rightharpoonup> nat list"
  supportedAreaIndexMaps :: "duid \<rightharpoonup> roomIndexMap"
  activeTimers :: "(timer \<times> nat \<times> tick) list"
  nextTimer :: timer
  trace :: "event list"

definition emit :: "event \<Rightarrow> service \<Rightarrow> service" where
  "emit e s = s\<lparr>trace := trace s @ [e]\<rparr>"

text \<open>The state right after the constructor.\<close>

definition newService :: "nat \<Rightarrow> (string \<Rightarrow> userData \<Rightarrow> clientRouter) \<Rightarrow> service" where
  "newService interval cm =
     \<lparr>iotApi = None, userdata = None, deviceNotify = False, messageClient = None,
      messageProcessorMap = [], ipMap = Map.empty, localClientMap = [],
      mqttAlwaysOnDevices = Map.empty, clientManager = Some cm, refreshInterval = interval,
      requestDeviceStatusInterval = None, supportedAreas = Map.empty,
      supportedRoutines = Map.empty, selectedAreas = Map.empty,
      supportedAreaIndexMaps = Map.empty, activeTimers = [], nextTimer = 0, trace = []\<rparr>"

section \<open>Selection and cleaning commands\<close>

definition getMessageProcessor :: "service \<Rightarrow> duid \<Rightarrow> messageProcessor option \<times> service" where
  "getMessageProcessor s d =
     (case map_of (messageProcessorMap s) d of
        None \<Rightarrow> (None, emit (Log Error ''MessageApi is not initialized.'') s)
      | Some p \<Rightarrow> (Some p, s))"

text \<open>\<open>this.getMessageProcessor(duid)?.m(...)\<close>: the call happens only on a processor.\<close>

definition onProcessor :: "service \<Rightarrow> duid \<Rightarrow> procCall \<Rightarrow> service" where
  "onProcessor s d c =
     (case getMessageProcessor s d of
        (None, s') \<Rightarrow> s'
      | (Some p, s') \<Rightarrow> emit (Proc p c) s')"

definition setSelectedAreas :: "service \<Rightarrow> duid \<Rightarrow> nat list \<Rightarrow> service" where
  "setSelectedAreas s d areas =
     (let s1 = emit (Log Debug ''RoborockService - setSelectedAreas'') s;
          roomIds = map (\<lambda>a. case supportedAreaIndexMaps s1 d of
                                None \<Rightarrow> None | Some m \<Rightarrow> m a) areas;
          s2 = emit (Log Debug ''RoborockService - setSelectedAreas - roomIds'') s1
      in s2\<lparr>selectedAreas := (selectedAreas s2)(d \<mapsto> map the (filter (\<lambda>r. r \<noteq> None) roomIds))\<rparr>)"


definition setSupportedAreas :: "service \<Rightarrow> duid \<Rightarrow> area list \<Rightarrow> service" where
  "setSupportedAreas s d as = s\<lparr>supportedAreas := (supportedAreas s)(d \<mapsto> as)\<rparr>"

definition setSupportedAreaIndexMap :: "service \<Rightarrow> duid \<Rightarrow> roomIndexMap \<Rightarrow> service" where
  "setSupportedAreaIndexMap s d m =
     s\<lparr>supportedAreaIndexMaps := (supportedAreaIndexMaps s)(d \<mapsto> m)\<rparr>"

definition setSupportedScenes :: "service \<Rightarrow> duid \<Rightarrow> area list \<Rightarrow> service" where
  "setSupportedScenes s d rs = s\<lparr>supportedRoutines := (supportedRoutines s)(d \<mapsto> rs)\<rparr>"

definition getSupportedAreas :: "service \<Rightarrow> duid \<Rightarrow> area list option" where
  "getSupportedAreas s d = supportedAreas s d"

text \<open>\<open>m.get(duid) ?? []\<close>.\<close>

definition orEmpty :: "'a list option \<Rightarrow> 'a list" where
  "orEmpty v = (case v of None \<Rightarrow> [] | Some xs \<Rightarrow> xs)"

text \<open>\<open>selected.filter((slt) => areas.some((a) => a.areaId == slt))\<close>.\<close>

definition matching :: "nat list \<Rightarrow> area list \<Rightarrow> nat list" where
  "matching selected areas = filter (\<lambda>slt. list_ex (\<lambda>a. areaId a = slt) areas) selected"

text \<open>
  \<open>await this.getMessageProcessor(duid)?.m(...)\<close> and \<open>return this.getMessageProcessor(duid)?.m(...)\<close>:
  without a processor the method resolves to \<open>undefined\<close>; with one it settles as the call
  does. \<open>outcome\<close> is what the processor's method settles to, \<open>Inl\<close> a rejection.
\<close>

definition awaitProcessor ::
  "service \<Rightarrow> duid \<Rightarrow> procCall \<Rightarrow> error + unit \<Rightarrow> (error + unit) \<times> service" where
  "awaitProcessor s d c outcome =
     (case getMessageProcessor s d of
        (None, s') \<Rightarrow> (Inr (), s')
      | (Some p, s') \<Rightarrow> (outcome, emit (Proc p c) s'))"

text \<open>
  What the two calls that \<open>startClean\<close> waits for settle to: \<open>iotApi.startScene\<close>, which it
  awaits, and the processor's \<open>startRoomClean\<close>, whose promise it returns. The processor's
  global \<open>startClean\<close> is neither awaited nor returned, so its outcome does not reach the
  caller.
\<close>

record cleanOutcomes =
  startSceneOutcome :: "error + unit"
  startRoomCleanOutcome :: "error + unit"

definition startClean :: "service \<Rightarrow> cleanOutcomes \<Rightarrow> duid \<Rightarrow> (error + unit) \<times> service" where
  "startClean s out d =
     (let supportedRooms = orEmpty (supportedAreas s d);
          supportedRts = orEmpty (supportedRoutines s d);
          selected = orEmpty (selectedAreas s d);
          s1 = emit (Log Debug ''RoborockService - begin cleaning'') s
      in if length supportedRts = 0 then
           if length selected = length supportedRooms \<or> length selected = 0
              \<or> length supportedRooms = 0
           then (Inr (), onProcessor (emit (Log Debug ''RoborockService - startGlobalClean'') s1)
                           d (StartClean d))
           else awaitProcessor (emit (Log Debug ''RoborockService - startRoomClean'') s1)
                  d (StartRoomClean d selected 1) (startRoomCleanOutcome out)
         else
           let rooms = matching selected supportedRooms;
               rt = matching selected supportedRts
           in if length rt > 1 then
                (Inr (), emit (Log Warn
                   ''RoborockService - Multiple routines selected, which is not supported.'') s1)
              else if length rt = 1 then
                (let s2 = emit (Log Debug ''RoborockService - startScene'') s1
                 in case iotApi s2 of
                      None \<Rightarrow> (Inr (), s2)
                    | Some api \<Rightarrow> (startSceneOutcome out, emit (Iot api (rt ! 0)) s2))
              else if length rooms = length supportedRooms \<or> length rooms = 0
                      \<or> length supportedRooms = 0
              then (Inr (), onProcessor (emit (Log Debug ''RoborockService - startGlobalClean'') s1)
                              d (StartClean d))
              else if length rooms > 0
              then awaitProcessor (emit (Log Debug ''RoborockService - startRoomClean'') s1)
                     d (StartRoomClean d rooms 1) (startRoomCleanOutcome out)
              else (Inr (), emit (Log Warn ''RoborockService - something goes wrong.'') s1))"

text \<open>
  \<open>getCleanModeData\<close>: \<open>answer\<close> is what the processor's \<open>getCleanModeData\<close> settles to:
  a rejection, \<open>undefined\<close> (\<open>Inr None\<close>) or the data.
\<close>

definition getCleanModeData ::
  "service \<Rightarrow> error + cleanModeSetting option \<Rightarrow> duid
     \<Rightarrow> (error + cleanModeSetting) \<times> service" where
  "getCleanModeData s answer d =
     (let s1 = emit (Log Notice ''RoborockService - getCleanModeData'') s
      in case getMessageProcessor s1 d of
           (None, s2) \<Rightarrow> (Inl FailedCleanModeData, s2)
         | (Some p, s2) \<Rightarrow>
             (let s3 = emit (Proc p (GetCleanModeData d)) s2
              in case answer of
                   Inl e \<Rightarrow> (Inl e, s3)
                 | Inr None \<Rightarrow> (Inl FailedCleanModeData, s3)
                 | Inr (Some data) \<Rightarrow> (Inr data, s3)))"

definition pauseClean :: "service \<Rightarrow> error + unit \<Rightarrow> duid \<Rightarrow> (error + unit) \<times> service" where
  "pauseClean s outcome d =
     awaitProcessor (emit (Log Debug ''RoborockService - pauseClean'') s) d (PauseClean d) outcome"

definition stopAndGoHome :: "service \<Rightarrow> error + unit \<Rightarrow> duid \<Rightarrow> (error + unit) \<times> service" where
  "stopAndGoHome s outcome d =
     awaitProcessor (emit (Log Debug ''RoborockService - stopAndGoHome'') s) d (GotoDock d) outcome"

definition resumeClean :: "service \<Rightarrow> error + unit \<Rightarrow> duid \<Rightarrow> (error + unit) \<times> service" where
  "resumeClean s outcome d =
     awaitProcessor (emit (Log Debug ''RoborockService - resumeClean'') s) d (ResumeClean d) outcome"

definition playSoundToLocate ::
  "service \<Rightarrow> error + unit \<Rightarrow> duid \<Rightarrow> (error + unit) \<times> service" where
  "playSoundToLocate s outcome d =
     awaitProcessor (emit (Log Debug ''RoborockService - findMe'') s) d (FindMyRobot d) outcome"

text \<open>
  \<open>customGet\<close> settles as the processor's \<open>getCustomMessage\<close> does (\<open>answer\<close>), and resolves
  to \<open>undefined\<close> (\<open>None\<close>) when there is no processor.
\<close>

definition customGet ::
  "service \<Rightarrow> error + string option \<Rightarrow> duid \<Rightarrow> requestMessage
     \<Rightarrow> (error + string option) \<times> service" where
  "customGet s answer d request =
     (let s1 = emit (Log Debug ''RoborockService - customSend-message'') s
      in case getMessageProcessor s1 d of
           (None, s2) \<Rightarrow> (Inr None, s2)
         | (Some p, s2) \<Rightarrow> (answer, emit (Proc p (GetCustomMessage d request)) s2))"

definition customSend ::
  "service \<Rightarrow> error + unit \<Rightarrow> duid \<Rightarrow> requestMessage \<Rightarrow> (error + unit) \<times> service" where
  "customSend s outcome d request = awaitProcessor s d (SendCustomMessage d request) outcome"

section \<open>Shutdown and status polling\<close>

text \<open>
  The loop \<open>for (const [duid, client] of this.localClientMap.entries())\<close> deletes the
  entry it is visiting; the iterator of a \<open>Map\<close> then moves on to the next live entry, so
  each round visits the first entry that is left.
\<close>

function disconnectLocalClients :: "service \<Rightarrow> service" where
  "disconnectLocalClients s =
     (case localClientMap s of
        [] \<Rightarrow> s
      | (d, c) # _ \<Rightarrow>
          (let s1 = emit (Log Debug ''Disconnecting local client for device'') s;
               s2 = emit (Client c ClientDisconnect) s1;
               s3 = s2\<lparr>localClientMap := AList.delete d (localClientMap s2)\<rparr>
           in disconnectLocalClients (emit (Log Debug ''Local client disconnected for device'') s3)))"
  by pat_completeness auto
termination
  by (relation "measure (\<lambda>s. length (localClientMap s))")
     (auto simp: emit_def AList.delete_eq intro: le_imp_less_Suc length_filter_le)

declare disconnectLocalClients.simps [simp del]

function removeMessageProcessors :: "service \<Rightarrow> service" where
  "removeMessageProcessors s =
     (case messageProcessorMap s of
        [] \<Rightarrow> s
      | (d, p) # _ \<Rightarrow>
          (let s1 = emit (Log Debug ''Disconnecting message processor for device'') s;
               s2 = s1\<lparr>messageProcessorMap := AList.delete d (messageProcessorMap s1)\<rparr>
           in removeMessageProcessors
                (emit (Log Debug ''Message processor disconnected for device'') s2)))"
  by pat_completeness auto
termination
  by (relation "measure (\<lambda>s. length (messageProcessorMap s))")
     (auto simp: emit_def AList.delete_eq intro: le_imp_less_Suc length_filter_le)

declare removeMessageProcessors.simps [simp del]

text \<open>\<open>clearInterval(t)\<close> takes the handle out of the timer table.\<close>

definition clearInterval :: "timer \<Rightarrow> service \<Rightarrow> service" where
  "clearInterval t s =
     (emit (ClearInterval t) s)\<lparr>activeTimers := filter (\<lambda>e. fst e \<noteq> t) (activeTimers s)\<rparr>"

definition stopService :: "service \<Rightarrow> service" where
  "stopService s =
     (let s1 = (case messageClient s of
                  None \<Rightarrow> s
                | Some r \<Rightarrow> (emit (Router r RouterDisconnect) s)\<lparr>messageClient := None\<rparr>);
          s2 = (if length (localClientMap s1) > 0 then disconnectLocalClients s1 else s1);
          s3 = (if length (messageProcessorMap s2) > 0 then removeMessageProcessors s2 else s2)
      in case requestDeviceStatusInterval s3 of
           None \<Rightarrow> s3
         | Some t \<Rightarrow> (clearInterval t s3)\<lparr>requestDeviceStatusInterval := None\<rparr>)"

definition setDeviceNotify :: "service \<Rightarrow> service" where
  "setDeviceNotify s = s\<lparr>deviceNotify := True\<rparr>"

text \<open>\<open>setInterval(f, ms)\<close> returns a fresh handle and enters it into the timer table.\<close>

definition setInterval :: "tick \<Rightarrow> nat \<Rightarrow> service \<Rightarrow> timer \<times> service" where
  "setInterval f ms s =
     (nextTimer s,
      (emit (SetInterval (nextTimer s) ms) s)
        \<lparr>activeTimers := activeTimers s @ [(nextTimer s, ms, f)],
         nextTimer := Suc (nextTimer s)\<rparr>)"

definition activateDeviceNotify :: "service \<Rightarrow> device \<Rightarrow> service" where
  "activateDeviceNotify s dev =
     (let s1 = emit (Log Debug ''Requesting device info for device'') s;
          (mp, s2) = getMessageProcessor s1 (dDuid dev);
          (t, s3) = setInterval (StatusTick mp (dDuid dev)) (refreshInterval s2 * 1000) s2
      in s3\<lparr>requestDeviceStatusInterval := Some t\<rparr>)"

definition activateDeviceNotifyOverMQTT :: "service \<Rightarrow> device \<Rightarrow> service" where
  "activateDeviceNotifyOverMQTT s dev =
     (let s1 = emit (Log Notice ''Requesting device info for device over MQTT'') s;
          (mp, s2) = getMessageProcessor s1 (dDuid dev);
          (t, s3) = setInterval (StatusTickMQTT mp (dDuid dev)) (refreshInterval s2 * 500) s2
      in s3\<lparr>requestDeviceStatusInterval := Some t\<rparr>)"

text \<open>
  One run of the closure of a status timer; \<open>response\<close> is what the processor's status
  request resolves to.
\<close>

fun runTick :: "tick \<Rightarrow> string option \<Rightarrow> service \<Rightarrow> service" where
  "runTick (StatusTick None d) response s = emit (Log Error ''Local client not initialized'') s"
| "runTick (StatusTick (Some p) d) response s =
     (let s1 = emit (Proc p (GetDeviceStatus d)) s
      in case response of
           None \<Rightarrow> s1
         | Some m \<Rightarrow> if deviceNotify s1
             then emit (DeviceNotify d m) (emit (Log Debug ''Socket - Device status update'') s1)
             else s1)"
| "runTick (StatusTickMQTT None d) response s = emit (Log Error ''Local client not initialized'') s"
| "runTick (StatusTickMQTT (Some p) d) response s =
     (let s1 = emit (Proc p (GetDeviceStatusOverMQTT d)) s
      in case response of
           None \<Rightarrow> s1
         | Some m \<Rightarrow> if deviceNotify s1
             then emit (DeviceNotify d m) (emit (Log Debug ''MQTT - Device status update'') s1)
             else s1)"

text \<open>The runtime fires a timer only while its handle is in the timer table.\<close>

definition fireTimer :: "timer \<Rightarrow> string option \<Rightarrow> service \<Rightarrow> service" where
  "fireTimer t response s =
     (case map_of (activeTimers s) t of
        None \<Rightarrow> s
      | Some (ms, f) \<Rightarrow> runTick f response s)"

text \<open>
  A run of activations, local or over MQTT, one after the other; and the invariant of the
  timer table that every live handle was handed out before \<open>nextTimer\<close>.
\<close>

datatype activation = Local device | OverMQTT device

fun activate :: "service \<Rightarrow> activation \<Rightarrow> service" where
  "activate s (Local dev) = activateDeviceNotify s dev"
| "activate s (OverMQTT dev) = activateDeviceNotifyOverMQTT s dev"

definition timersFresh :: "service \<Rightarrow> bool" where
  "timersFresh s = list_all (\<lambda>e. fst e < nextTimer s) (activeTimers s)"

section \<open>Connecting\<close>

text \<open>
  \<open>while (!this.messageClient.isConnected()) await this.sleep(500)\<close>. What the router
  answers is given by \<open>conn\<close>: \<open>conn k\<close> is the answer to the \<open>k\<close>-th call of
  \<open>isConnected\<close>, counted from 0. The loop has no bound, so it may not return.
\<close>

partial_function (option) waitConnected ::
  "(nat \<Rightarrow> bool) \<Rightarrow> clientRouter \<Rightarrow> nat \<Rightarrow> service \<Rightarrow> (nat \<times> service) option" where
  "waitConnected conn r k s =
     (let s1 = emit (Router r RouterIsConnected) s
      in if \<not> conn k then waitConnected conn r (Suc k) (emit (Sleep 500) s1)
         else Some (k, s1))"

text \<open>
  \<open>initializeMessageClient\<close>; the result is \<open>None\<close> when the call never returns, else the
  number of rounds of the loop and the state.
\<close>

definition initializeMessageClient ::
  "service \<Rightarrow> string \<Rightarrow> device \<Rightarrow> userData \<Rightarrow> (nat \<Rightarrow> bool) \<Rightarrow> (nat \<times> service) option" where
  "initializeMessageClient s username dev ud conn =
     (case clientManager s of
        None \<Rightarrow> Some (0, emit (Log Error ''ClientManager not initialized'') s)
      | Some cm \<Rightarrow>
          (let r = cm username ud;
               s1 = s\<lparr>messageClient := Some r\<rparr>;
               s2 = emit (Router r (RegisterDevice (dDuid dev) (localKey dev) (pv dev))) s1;
               s3 = emit (Router r RegisterMessageListener) s2;
               s4 = emit (Router r RouterConnect) s3
           in case waitConnected conn r 0 s4 of
                None \<Rightarrow> None
              | Some (n, s5) \<Rightarrow> Some (n, emit (Log Debug ''MessageClient connected'') s5)))"

text \<open>
  The bounded loop of the local connection:
  \<open>while (!localClient.isConnected() && count < 20) { count++; await this.sleep(500) }\<close>.
  Each test of the condition calls \<open>isConnected\<close> once, so the \<open>count\<close>-th test is the
  \<open>count\<close>-th call. The result is the final \<open>count\<close>.
\<close>

function waitLocal :: "(nat \<Rightarrow> bool) \<Rightarrow> client \<Rightarrow> nat \<Rightarrow> service \<Rightarrow> nat \<times> service" where
  "waitLocal conn c count s =
     (let s1 = emit (Client c ClientIsConnected) s
      in if \<not> conn count \<and> count < 20
         then waitLocal conn c (Suc count)
                (emit (Sleep 500) (emit (Log Debug ''Keep waiting for local client to connect'') s1))
         else (count, s1))"
  by pat_completeness auto
termination
  by (relation "measure (\<lambda>(conn, c, count, s). 20 - count)") auto

declare waitLocal.simps [simp del]

text \<open>A JavaScript string that may be \<open>undefined\<close> is truthy when present and not empty.\<close>

definition truthy :: "string option \<Rightarrow> bool" where
  "truthy v = (case v of None \<Rightarrow> False | Some x \<Rightarrow> x \<noteq> [])"

text \<open>
  The part of the \<open>try\<close> block from \<open>if (localIp)\<close> on. \<open>Inl\<close> is the error thrown inside
  the block, \<open>Inr True\<close> is leaving the block at its end.
\<close>

definition connectLocal ::
  "service \<Rightarrow> clientRouter \<Rightarrow> device \<Rightarrow> string \<Rightarrow> (nat \<Rightarrow> bool) \<Rightarrow> (error + bool) \<times> service" where
  "connectLocal s r dev localIp conn =
     (let s1 = emit (Log Debug ''initializing the local connection for this client towards'') s;
          localClient = LocalNetworkClient r (dDuid dev) localIp;
          s2 = emit (Router r (RegisterClient (dDuid dev) localIp)) s1;
          s3 = emit (Client localClient ClientConnect) s2;
          (count, s4) = waitLocal conn localClient 0 s3;
          s5 = emit (Client localClient ClientIsConnected) s4
      in if \<not> conn (Suc count) then (Inl LocalClientNotConnected, s5)
         else (Inr True,
               emit (Log Debug ''LocalClient connected'')
                 (s5\<lparr>ipMap := (ipMap s5)(dDuid dev \<mapsto> localIp),
                     localClientMap := AList.update (dDuid dev) localClient (localClientMap s5)\<rparr>)))"

text \<open>
  The \<open>try\<close> block. \<open>netInfo\<close> is the outcome of the processor's \<open>getNetworkInfo\<close>:
  a rejection, \<open>undefined\<close>, or the info. \<open>Inr False\<close> is the \<open>return false\<close> inside the block.
\<close>

definition tryLocal ::
  "service \<Rightarrow> clientRouter \<Rightarrow> messageProcessor \<Rightarrow> device \<Rightarrow> (error + networkInfo option)
     \<Rightarrow> (nat \<Rightarrow> bool) \<Rightarrow> (error + bool) \<times> service" where
  "tryLocal s r p dev netInfo conn =
     (if \<not> truthy (ipMap s (dDuid dev)) then
        (let s1 = emit (Log Debug ''Requesting network info for device'') s;
             s2 = emit (Proc p (GetNetworkInfo (dDuid dev))) s1
         in case netInfo of
              Inl e \<Rightarrow> (Inl e, s2)
            | Inr None \<Rightarrow>
                (Inr False, emit (Log Error ''Failed to retrieve network info for device'') s2)
            | Inr (Some info) \<Rightarrow>
                if \<not> truthy (ip info)
                then (Inr False, emit (Log Error ''Failed to retrieve network info for device'') s2)
                else connectLocal (emit (Log Debug ''Network ip for device'') s2)
                       r dev (the (ip info)) conn)
      else connectLocal s r dev (the (ipMap s (dDuid dev))) conn)"

definition initializeMessageClientForLocal ::
  "service \<Rightarrow> device \<Rightarrow> (error + networkInfo option) \<Rightarrow> (nat \<Rightarrow> bool) \<Rightarrow> bool \<times> service" where
  "initializeMessageClientForLocal s dev netInfo conn =
     (let s0 = emit (Log Debug ''Begin get local ip'') s
      in case messageClient s0 of
           None \<Rightarrow> (False, emit (Log Error ''messageClient not initialized'') s0)
         | Some r \<Rightarrow>
             (let p = MessageProcessor r;
                  s1 = emit (Proc p InjectLogger) s0;
                  s2 = emit (Proc p (RegisterListener (dDuid dev))) s1;
                  s3 = s2\<lparr>messageProcessorMap :=
                            AList.update (dDuid dev) p (messageProcessorMap s2)\<rparr>;
                  s4 = emit (Log Debug ''Checking if device supports local connection'') s3
              in if pv dev = ''B01'' then
                   (True, (emit (Log Warn ''Device does not support local connection'') s4)
                            \<lparr>mqttAlwaysOnDevices := (mqttAlwaysOnDevices s4)(dDuid dev \<mapsto> True)\<rparr>)
                 else
                   (let s5 = s4\<lparr>mqttAlwaysOnDevices :=
                                  (mqttAlwaysOnDevices s4)(dDuid dev \<mapsto> False)\<rparr>;
                        s6 = emit (Log Debug ''Local device'') s5
                    in case tryLocal s6 r p dev netInfo conn of
                         (Inl e, s7) \<Rightarrow> (False, emit (Log Error ''Error requesting network info'') s7)
                       | (Inr False, s7) \<Rightarrow> (False, s7)
                       | (Inr True, s7) \<Rightarrow> (True, s7))))"

definition isRequestSecure :: "service \<Rightarrow> duid \<Rightarrow> bool" where
  "isRequestSecure s d = (case mqttAlwaysOnDevices s d of None \<Rightarrow> False | Some b \<Rightarrow> b)"

text \<open>
  \<open>getRoomMappings\<close> builds its request with \<open>secure: this.isRequestSecure(duid)\<close>;
  \<open>answer\<close> is what the router's \<open>get\<close> resolves to.
\<close>

definition roomMappingRequest :: "service \<Rightarrow> duid \<Rightarrow> requestMessage" where
  "roomMappingRequest s d =
     \<lparr>methodName = ''get_room_mapping'', params = None, secure = isRequestSecure s d\<rparr>"

definition getRoomMappings ::
  "service \<Rightarrow> nat list list option \<Rightarrow> duid \<Rightarrow> nat list list option \<times> service" where
  "getRoomMappings s answer d =
     (case messageClient s of
        None \<Rightarrow> (None, emit (Log Warn
                   ''messageClient not initialized. Waititing for next execution'') s)
      | Some r \<Rightarrow> (answer, emit (Router r (RouterGet d (roomMappingRequest s d))) s))"

section \<open>Runs of the service\<close>

text \<open>
  The methods above as commands, each with the values its collaborators hand back, so that
  what holds after any later use of the service can be stated. \<open>exec\<close> is the state a
  command leaves, \<open>None\<close> when the command never returns; \<open>execAll\<close> runs a list of
  commands in order.
\<close>

datatype command =
  DoSetSelectedAreas duid "nat list"
| DoSetSupportedAreas duid "area list"
| DoSetSupportedAreaIndexMap duid roomIndexMap
| DoSetSupportedScenes duid "area list"
| DoGetCleanModeData "error + cleanModeSetting option" duid
| DoStartClean cleanOutcomes duid
| DoPauseClean "error + unit" duid
| DoStopAndGoHome "error + unit" duid
| DoResumeClean "error + unit" duid
| DoPlaySoundToLocate "error + unit" duid
| DoCustomGet "error + string option" duid requestMessage
| DoCustomSend "error + unit" duid requestMessage
| DoStopService
| DoSetDeviceNotify
| DoActivateDeviceNotify device
| DoActivateDeviceNotifyOverMQTT device
| DoFireTimer timer "string option"
| DoInitializeMessageClient string device userData "nat \<Rightarrow> bool"
| DoInitializeMessageClientForLocal device "error + networkInfo option" "nat \<Rightarrow> bool"
| DoGetRoomMappings "nat list list option" duid

fun exec :: "service \<Rightarrow> command \<Rightarrow> service option" where
  "exec s (DoSetSelectedAreas d areas) = Some (setSelectedAreas s d areas)"
| "exec s (DoSetSupportedAreas d as) = Some (setSupportedAreas s d as)"
| "exec s (DoSetSupportedAreaIndexMap d m) = Some (setSupportedAreaIndexMap s d m)"
| "exec s (DoSetSupportedScenes d rs) = Some (setSupportedScenes s d rs)"
| "exec s (DoGetCleanModeData answer d) = Some (snd (getCleanModeData s answer d))"
| "exec s (DoStartClean out d) = Some (snd (startClean s out d))"
| "exec s (DoPauseClean outcome d) = Some (snd (pauseClean s outcome d))"
| "exec s (DoStopAndGoHome outcome d) = Some (snd (stopAndGoHome s outcome d))"
| "exec s (DoResumeClean outcome d) = Some (snd (resumeClean s outcome d))"
| "exec s (DoPlaySoundToLocate outcome d) = Some (snd (playSoundToLocate s outcome d))"
| "exec s (DoCustomGet answer d request) = Some (snd (customGet s answer d request))"
| "exec s (DoCustomSend outcome d request) = Some (snd (customSend s outcome d request))"
| "exec s DoStopService = Some (stopService s)"
| "exec s DoSetDeviceNotify = Some (setDeviceNotify s)"
| "exec s (DoActivateDeviceNotify dev) = Some (activateDeviceNotify s dev)"
| "exec s (DoActivateDeviceNotifyOverMQTT dev) = Some (activateDeviceNotifyOverMQTT s dev)"
| "exec s (DoFireTimer t response) = Some (fireTimer t response s)"
| "exec s (DoInitializeMessageClient username dev ud conn) =
     map_option snd (initializeMessageClient s username dev ud conn)"
| "exec s (DoInitializeMessageClientForLocal dev netInfo conn) =
     Some (snd (initializeMessageClientForLocal s dev netInfo conn))"
| "exec s (DoGetRoomMappings answer d) = Some (snd (getRoomMappings s answer d))"

fun execAll :: "service \<Rightarrow> command list \<Rightarrow> service option" where
  "execAll s [] = Some s"
| "execAll s (c # cs) = (case exec s c of None \<Rightarrow> None | Some s' \<Rightarrow> execAll s' cs)"

text \<open>
  The one command that can take the cloud-always flag of device \<open>d\<close> away again: a local
  initialisation of the same device id with a protocol version other than \<open>B01\<close>.
\<close>

fun keepsCloudOnly :: "duid \<Rightarrow> command \<Rightarrow> bool" where
  "keepsCloudOnly d (DoInitializeMessageClientForLocal dev netInfo conn) =
     (dDuid dev \<noteq> d \<or> pv dev = ''B01'')"
| "keepsCloudOnly d c = True"

section \<open>Measuring a trace\<close>

text \<open>
  What \<open>n\<close> rounds of the local wait loop add to the trace: per round one call of
  \<open>isConnected\<close>, the debug line and the sleep; then the call of \<open>isConnected\<close> that ends
  the loop. \<open>slept\<close> is the time a trace spends in \<open>sleep\<close>, in milliseconds.
\<close>

definition localPollTrace :: "client \<Rightarrow> nat \<Rightarrow> event list" where
  "localPollTrace c n =
     concat (replicate n [Client c ClientIsConnected,
                          Log Debug ''Keep waiting for local client to connect'',
                          Sleep 500])
     @ [Client c ClientIsConnected]"

text \<open>The same for \<open>n\<close> rounds of the unbounded wait loop on the client router.\<close>

definition pollTrace :: "clientRouter \<Rightarrow> nat \<Rightarrow> event list" where
  "pollTrace r n =
     concat (replicate n [Router r RouterIsConnected, Sleep 500]) @ [Router r RouterIsConnected]"

fun slept :: "event list \<Rightarrow> nat" where
  "slept [] = 0"
| "slept (Sleep ms # es) = ms + slept es"
| "slept (e # es) = slept es"

section \<open>Example states\<close>

text \<open>
  The states the unit tests of the service build: a service with refresh interval 10, an
  IoT API, and a processor registered for \<open>test-duid\<close>; rooms 1 and 2 supported; routines 99
  and 100 supported; and the same without a processor.
\<close>

definition room :: "nat \<Rightarrow> area" where
  "room i = \<lparr>areaId = i, mapId = None\<rparr>"

definition testService :: service where
  "testService =
     (newService 10 (\<lambda>u d. 0))
       \<lparr>iotApi := Some (RoborockIoTApi ''userdata''),
        messageProcessorMap := [(''test-duid'', MessageProcessor 0)]\<rparr>"

definition roomsService :: "nat list \<Rightarrow> service" where
  "roomsService sel =
     (setSupportedAreas testService ''test-duid'' [room 1, room 2])
       \<lparr>selectedAreas := [''test-duid'' \<mapsto> sel]\<rparr>"

definition routinesService :: "nat list \<Rightarrow> service" where
  "routinesService sel =
     (setSupportedScenes (roomsService sel) ''test-duid'' [room 99, room 100])"

definition idleService :: "nat list \<Rightarrow> service" where
  "idleService sel = (routinesService sel)\<lparr>messageProcessorMap := []\<rparr>"

text \<open>The same before authentication: no IoT API yet.\<close>

definition unauthenticatedService :: "nat list \<Rightarrow> service" where
  "unauthenticatedService sel = (routinesService sel)\<lparr>iotApi := None\<rparr>"

definition connectedService :: service where
  "connectedService = testService\<lparr>messageClient := Some 0\<rparr>"

definition vacuum :: "string \<Rightarrow> string \<Rightarrow> device" where
  "vacuum d v = \<lparr>dDuid = d, localKey = ''key'', pv = v\<rparr>"

text \<open>
  Collaborators whose calls all resolve; an IoT API whose \<open>startScene\<close> rejects; a client
  that never reports connected.
\<close>

definition allSettled :: cleanOutcomes where
  "allSettled = \<lparr>startSceneOutcome = Inr (), startRoomCleanOutcome = Inr ()\<rparr>"

definition sceneRejected :: cleanOutcomes where
  "sceneRejected =
     \<lparr>startSceneOutcome = Inl (Rejected ''scene failed''), startRoomCleanOutcome = Inr ()\<rparr>"

definition neverConnected :: "nat \<Rightarrow> bool" where
  "neverConnected k = False"

text \<open>Two vacuums with their processors, as in server mode.\<close>

definition twoVacuums :: service where
  "twoVacuums =
     connectedService\<lparr>messageProcessorMap :=
        [(''test-duid'', MessageProcessor 0), (''duid-2'', MessageProcessor 0)]\<rparr>"

section \<open>Helper facts\<close>

lemmas fixture_defs = roomsService_def routinesService_def idleService_def testService_def
  newService_def setSupportedAreas_def setSupportedScenes_def room_def orEmpty_def

lemma emit_fields [simp]:
  "iotApi (emit e s) = iotApi s"
  "messageClient (emit e s) = messageClient s"
  "messageProcessorMap (emit e s) = messageProcessorMap s"
  "localClientMap (emit e s) = localClientMap s"
  "mqttAlwaysOnDevices (emit e s) = mqttAlwaysOnDevices s"
  "ipMap (emit e s) = ipMap s"
  "requestDeviceStatusInterval (emit e s) = requestDeviceStatusInterval s"
  "supportedAreas (emit e s) = supportedAreas s"
  "supportedRoutines (emit e s) = supportedRoutines s"
  "selectedAreas (emit e s) = selectedAreas s"
  "supportedAreaIndexMaps (emit e s) = supportedAreaIndexMaps s"
  "activeTimers (emit e s) = activeTimers s"
  "nextTimer (emit e s) = nextTimer s"
  "refreshInterval (emit e s) = refreshInterval s"
  "deviceNotify (emit e s) = deviceNotify s"
  "clientManager (emit e s) = clientManager s"
  "trace (emit e s) = trace s @ [e]"
  by (simp_all add: emit_def)

lemma emit2: "emit e2 (emit e1 s) = s\<lparr>trace := trace s @ [e1, e2]\<rparr>"
  by (simp add: emit_def)

lemma emit3: "emit e3 (emit e2 (emit e1 s)) = s\<lparr>trace := trace s @ [e1, e2, e3]\<rparr>"
  by (simp add: emit_def)

lemma onProcessor_Some:
  "map_of (messageProcessorMap s) d = Some p \<Longrightarrow> onProcessor s d c = emit (Proc p c) s"
  by (simp add: onProcessor_def getMessageProcessor_def)

lemma onProcessor_None:
  "map_of (messageProcessorMap s) d = None \<Longrightarrow>
   onProcessor s d c = emit (Log Error ''MessageApi is not initialized.'') s"
  by (simp add: onProcessor_def getMessageProcessor_def)

lemma onProcessor_Some3:
  assumes "map_of (messageProcessorMap s) d = Some p"
  shows "onProcessor (emit e2 (emit e1 s)) d c = s\<lparr>trace := trace s @ [e1, e2, Proc p c]\<rparr>"
  using assms by (simp add: onProcessor_Some emit3)

lemma onProcessor_None3:
  assumes "map_of (messageProcessorMap s) d = None"
  shows "onProcessor (emit e2 (emit e1 s)) d c =
     s\<lparr>trace := trace s @ [e1, e2, Log Error ''MessageApi is not initialized.'']\<rparr>"
  using assms by (simp add: onProcessor_None emit3)

lemma awaitProcessor_Some3:
  assumes "map_of (messageProcessorMap s) d = Some p"
  shows "awaitProcessor (emit e2 (emit e1 s)) d c outcome =
     (outcome, s\<lparr>trace := trace s @ [e1, e2, Proc p c]\<rparr>)"
  using assms by (simp add: awaitProcessor_def getMessageProcessor_def emit3)

lemma awaitProcessor_None3:
  assumes "map_of (messageProcessorMap s) d = None"
  shows "awaitProcessor (emit e2 (emit e1 s)) d c outcome =
     (Inr (), s\<lparr>trace := trace s @ [e1, e2, Log Error ''MessageApi is not initialized.'']\<rparr>)"
  using assms by (simp add: awaitProcessor_def getMessageProcessor_def emit3)

lemma awaitProcessor_None2:
  assumes "map_of (messageProcessorMap s) d = None"
  shows "awaitProcessor (emit e1 s) d c outcome =
     (Inr (), s\<lparr>trace := trace s @ [e1, Log Error ''MessageApi is not initialized.'']\<rparr>)"
  using assms by (simp add: awaitProcessor_def getMessageProcessor_def emit2)

lemma awaitProcessor_None1:
  assumes "map_of (messageProcessorMap s) d = None"
  shows "awaitProcessor s d c outcome =
     (Inr (), s\<lparr>trace := trace s @ [Log Error ''MessageApi is not initialized.'']\<rparr>)"
  using assms by (simp add: awaitProcessor_def getMessageProcessor_def emit_def)

lemma matching_Nil [simp]: "matching sel [] = []"
  by (simp add: matching_def)

lemma matching_Nil2 [simp]: "matching [] as = []"
  by (simp add: matching_def)

text \<open>The branches of \<open>startClean\<close>.\<close>

lemma startClean_no_routines:
  assumes "orEmpty (supportedRoutines s d) = []"
  shows "startClean s out d =
     (if length (orEmpty (selectedAreas s d)) = length (orEmpty (supportedAreas s d))
         \<or> orEmpty (selectedAreas s d) = [] \<or> orEmpty (supportedAreas s d) = []
      then (Inr (), onProcessor (emit (Log Debug ''RoborockService - startGlobalClean'')
              (emit (Log Debug ''RoborockService - begin cleaning'') s)) d (StartClean d))
      else awaitProcessor (emit (Log Debug ''RoborockService - startRoomClean'')
              (emit (Log Debug ''RoborockService - begin cleaning'') s)) d
             (StartRoomClean d (orEmpty (selectedAreas s d)) 1) (startRoomCleanOutcome out))"
  using assms unfolding startClean_def Let_def by simp

lemma startClean_no_routine_selected:
  assumes "orEmpty (supportedRoutines s d) \<noteq> []"
    and "matching (orEmpty (selectedAreas s d)) (orEmpty (supportedRoutines s d)) = []"
  shows "startClean s out d =
     (if length (matching (orEmpty (selectedAreas s d)) (orEmpty (supportedAreas s d)))
           = length (orEmpty (supportedAreas s d))
         \<or> matching (orEmpty (selectedAreas s d)) (orEmpty (supportedAreas s d)) = []
         \<or> orEmpty (supportedAreas s d) = []
      then (Inr (), onProcessor (emit (Log Debug ''RoborockService - startGlobalClean'')
              (emit (Log Debug ''RoborockService - begin cleaning'') s)) d (StartClean d))
      else awaitProcessor (emit (Log Debug ''RoborockService - startRoomClean'')
              (emit (Log Debug ''RoborockService - begin cleaning'') s)) d
             (StartRoomClean d (matching (orEmpty (selectedAreas s d)) (orEmpty (supportedAreas s d))) 1)
             (startRoomCleanOutcome out))"
  using assms unfolding startClean_def Let_def by simp

lemma startClean_one_routine:
  assumes "matching (orEmpty (selectedAreas s d)) (orEmpty (supportedRoutines s d)) = [r]"
  shows "startClean s out d =
     (case iotApi s of
        None \<Rightarrow> (Inr (), s\<lparr>trace := trace s @
           [Log Debug ''RoborockService - begin cleaning'',
            Log Debug ''RoborockService - startScene'']\<rparr>)
      | Some api \<Rightarrow> (startSceneOutcome out, s\<lparr>trace := trace s @
           [Log Debug ''RoborockService - begin cleaning'',
            Log Debug ''RoborockService - startScene'',
            Iot api r]\<rparr>))"
proof -
  have ne: "orEmpty (supportedRoutines s d) \<noteq> []" using assms by auto
  have "startClean s out d =
     (case iotApi s of
        None \<Rightarrow> (Inr (), emit (Log Debug ''RoborockService - startScene'')
           (emit (Log Debug ''RoborockService - begin cleaning'') s))
      | Some api \<Rightarrow> (startSceneOutcome out, emit (Iot api r)
           (emit (Log Debug ''RoborockService - startScene'')
              (emit (Log Debug ''RoborockService - begin cleaning'') s))))"
    using assms ne unfolding startClean_def Let_def by (cases "iotApi s") simp_all
  then show ?thesis by (cases "iotApi s") (simp_all add: emit_def)
qed

lemma startClean_many_routines:
  assumes "length (matching (orEmpty (selectedAreas s d)) (orEmpty (supportedRoutines s d))) > 1"
  shows "startClean s out d =
     (Inr (), s\<lparr>trace := trace s @
        [Log Debug ''RoborockService - begin cleaning'',
         Log Warn ''RoborockService - Multiple routines selected, which is not supported.'']\<rparr>)"
proof -
  have "orEmpty (supportedRoutines s d) \<noteq> []" using assms by auto
  then have "startClean s out d =
     (Inr (), emit (Log Warn ''RoborockService - Multiple routines selected, which is not supported.'')
        (emit (Log Debug ''RoborockService - begin cleaning'') s))"
    using assms unfolding startClean_def Let_def by simp
  then show ?thesis by (simp only: emit2)
qed

text \<open>Without a processor and without a selected routine: the lookup fails, nothing is called.\<close>

lemma startClean_without_processor:
  assumes np: "map_of (messageProcessorMap s) d = None"
    and m: "matching (orEmpty (selectedAreas s d)) (orEmpty (supportedRoutines s d)) = []"
  shows "\<exists>m. startClean s out d = (Inr (), s\<lparr>trace := trace s @
              [Log Debug ''RoborockService - begin cleaning'', Log Debug m,
               Log Error ''MessageApi is not initialized.'']\<rparr>)"
proof (cases "orEmpty (supportedRoutines s d) = []")
  case True
  show ?thesis
  proof (cases "length (orEmpty (selectedAreas s d)) = length (orEmpty (supportedAreas s d))
         \<or> orEmpty (selectedAreas s d) = [] \<or> orEmpty (supportedAreas s d) = []")
    case c: True
    have eq: "startClean s out d = (Inr (), s\<lparr>trace := trace s @
              [Log Debug ''RoborockService - begin cleaning'',
               Log Debug ''RoborockService - startGlobalClean'',
               Log Error ''MessageApi is not initialized.'']\<rparr>)"
      by (simp only: startClean_no_routines [OF True] c if_True onProcessor_None3 [OF np])
    show ?thesis
      by (rule exI [where x = "''RoborockService - startGlobalClean''"]) (rule eq)
  next
    case c: False
    have eq: "startClean s out d = (Inr (), s\<lparr>trace := trace s @
              [Log Debug ''RoborockService - begin cleaning'',
               Log Debug ''RoborockService - startRoomClean'',
               Log Error ''MessageApi is not initialized.'']\<rparr>)"
      by (simp only: startClean_no_routines [OF True] c if_False awaitProcessor_None3 [OF np])
    show ?thesis
      by (rule exI [where x = "''RoborockService - startRoomClean''"]) (rule eq)
  qed
next
  case False
  show ?thesis
  proof (cases "length (matching (orEmpty (selectedAreas s d)) (orEmpty (supportedAreas s d)))
           = length (orEmpty (supportedAreas s d))
         \<or> matching (orEmpty (selectedAreas s d)) (orEmpty (supportedAreas s d)) = []
         \<or> orEmpty (supportedAreas s d) = []")
    case c: True
    have eq: "startClean s out d = (Inr (), s\<lparr>trace := trace s @
              [Log Debug ''RoborockService - begin cleaning'',
               Log Debug ''RoborockService - startGlobalClean'',
               Log Error ''MessageApi is not initialized.'']\<rparr>)"
      by (simp only: startClean_no_routine_selected [OF False m] c if_True
          onProcessor_None3 [OF np])
    show ?thesis
      by (rule exI [where x = "''RoborockService - startGlobalClean''"]) (rule eq)
  next
    case c: False
    have eq: "startClean s out d = (Inr (), s\<lparr>trace := trace s @
              [Log Debug ''RoborockService - begin cleaning'',
               Log Debug ''RoborockService - startRoomClean'',
               Log Error ''MessageApi is not initialized.'']\<rparr>)"
      by (simp only: startClean_no_routine_selected [OF False m] c if_False
          awaitProcessor_None3 [OF np])
    show ?thesis
      by (rule exI [where x = "''RoborockService - startRoomClean''"]) (rule eq)
  qed
qed

section \<open>Choosing between global clean, room clean and scene\<close>

text \<open>
  C1 (as amended). For a device with a registered message processor and no routines
  configured, \<open>startClean\<close> issues the processor's global \<open>startClean\<close>, and no room clean,
  when the selected list is empty, or has as many entries as the supported-room list, or the
  supported-room list is empty; otherwise it issues \<open>startRoomClean\<close> with exactly the
  selected list and pass count 1, and no global clean, and settles as that call does. The
  test compares the lengths of the two lists, not their elements.
\<close>

theorem startClean_without_routines:
  assumes "orEmpty (supportedRoutines s d) = []"
    and "map_of (messageProcessorMap s) d = Some p"
  shows "startClean s out d =
     (if length (orEmpty (selectedAreas s d)) = length (orEmpty (supportedAreas s d))
         \<or> orEmpty (selectedAreas s d) = [] \<or> orEmpty (supportedAreas s d) = []
      then (Inr (), s\<lparr>trace := trace s @
             [Log Debug ''RoborockService - begin cleaning'',
              Log Debug ''RoborockService - startGlobalClean'',
              Proc p (StartClean d)]\<rparr>)
      else (startRoomCleanOutcome out, s\<lparr>trace := trace s @
             [Log Debug ''RoborockService - begin cleaning'',
              Log Debug ''RoborockService - startRoomClean'',
              Proc p (StartRoomClean d (orEmpty (selectedAreas s d)) 1)]\<rparr>))"
  by (simp only: startClean_no_routines [OF assms(1)] onProcessor_Some3 [OF assms(2)]
      awaitProcessor_Some3 [OF assms(2)])

text \<open>Supported rooms 1 and 2, selected room 1: room clean with \<open>[1]\<close>.\<close>

theorem startClean_without_routines_witness:
  "orEmpty (supportedRoutines (roomsService [1]) ''test-duid'') = []
   \<and> map_of (messageProcessorMap (roomsService [1])) ''test-duid'' = Some (MessageProcessor 0)
   \<and> trace (snd (startClean (roomsService [1]) allSettled ''test-duid'')) =
       [Log Debug ''RoborockService - begin cleaning'',
        Log Debug ''RoborockService - startRoomClean'',
        Proc (MessageProcessor 0) (StartRoomClean ''test-duid'' [1] 1)]"
proof -
  have h1: "orEmpty (supportedRoutines (roomsService [1]) ''test-duid'') = []"
    by (simp add: fixture_defs)
  have h2: "map_of (messageProcessorMap (roomsService [1])) ''test-duid'' = Some (MessageProcessor 0)"
    by (simp add: fixture_defs)
  show ?thesis
    using startClean_without_routines [OF h1 h2, of allSettled] h1 h2 by (simp add: fixture_defs)
qed

text \<open>
  C1 as stated fails: with rooms 1 and 2 supported and \<open>[1, 3]\<close> selected, the selection is
  not empty, is not the supported set, and the supported set is not empty, yet the global
  clean is issued and no room clean.
\<close>

theorem startClean_set_rule_counterexample:
  "orEmpty (supportedRoutines (roomsService [1, 3]) ''test-duid'') = []
   \<and> orEmpty (selectedAreas (roomsService [1, 3]) ''test-duid'') \<noteq> []
   \<and> orEmpty (supportedAreas (roomsService [1, 3]) ''test-duid'') \<noteq> []
   \<and> set (orEmpty (selectedAreas (roomsService [1, 3]) ''test-duid''))
       \<noteq> areaId ` set (orEmpty (supportedAreas (roomsService [1, 3]) ''test-duid''))
   \<and> trace (snd (startClean (roomsService [1, 3]) allSettled ''test-duid'')) =
       [Log Debug ''RoborockService - begin cleaning'',
        Log Debug ''RoborockService - startGlobalClean'',
        Proc (MessageProcessor 0) (StartClean ''test-duid'')]"
proof -
  have ne: "{1, 3} \<noteq> {1, 2::nat}"
  proof
    assume "{1, 3} = {1, 2::nat}"
    then have "(3::nat) \<in> {1, 2}" by (rule subst) simp
    then show False by simp
  qed
  show ?thesis
    using ne
    by (simp add: fixture_defs startClean_def onProcessor_def getMessageProcessor_def emit_def)
qed

text \<open>
  C2 (as amended). With a non-empty routine set and exactly one selected area matching a
  supported routine: if the IoT API exists, \<open>startClean\<close> invokes \<open>startScene\<close> with that
  routine's id and settles as that call does, returning when it resolves and rejecting when
  it rejects; if there is no IoT API it invokes nothing and returns. In neither case does a
  call reach the message processor.
\<close>

theorem startClean_single_routine:
  assumes "orEmpty (supportedRoutines s d) \<noteq> []"
    and "matching (orEmpty (selectedAreas s d)) (orEmpty (supportedRoutines s d)) = [r]"
  shows "startClean s out d =
     (case iotApi s of
        None \<Rightarrow> (Inr (), s\<lparr>trace := trace s @
           [Log Debug ''RoborockService - begin cleaning'',
            Log Debug ''RoborockService - startScene'']\<rparr>)
      | Some api \<Rightarrow> (startSceneOutcome out, s\<lparr>trace := trace s @
           [Log Debug ''RoborockService - begin cleaning'',
            Log Debug ''RoborockService - startScene'',
            Iot api r]\<rparr>))
     \<and> r \<in> areaId ` set (orEmpty (supportedRoutines s d))"
proof -
  have "r \<in> set (matching (orEmpty (selectedAreas s d)) (orEmpty (supportedRoutines s d)))"
    using assms(2) by simp
  then have mem: "r \<in> areaId ` set (orEmpty (supportedRoutines s d))"
    by (auto simp: matching_def list_ex_iff)
  from startClean_one_routine [OF assms(2)] mem show ?thesis by (rule conjI)
qed

text \<open>Routine 99 selected: the scene is started; when \<open>startScene\<close> rejects, so does \<open>startClean\<close>.\<close>

theorem startClean_single_routine_witness:
  "orEmpty (supportedRoutines (routinesService [99]) ''test-duid'') \<noteq> []
   \<and> matching (orEmpty (selectedAreas (routinesService [99]) ''test-duid''))
        (orEmpty (supportedRoutines (routinesService [99]) ''test-duid'')) = [99]
   \<and> startClean (routinesService [99]) sceneRejected ''test-duid'' =
       (Inl (Rejected ''scene failed''),
        (routinesService [99])\<lparr>trace :=
          [Log Debug ''RoborockService - begin cleaning'',
           Log Debug ''RoborockService - startScene'',
           Iot (RoborockIoTApi ''userdata'') 99]\<rparr>)"
proof -
  have h1: "orEmpty (supportedRoutines (routinesService [99]) ''test-duid'') \<noteq> []"
    by (simp add: fixture_defs)
  have h2: "matching (orEmpty (selectedAreas (routinesService [99]) ''test-duid''))
        (orEmpty (supportedRoutines (routinesService [99]) ''test-duid'')) = [99]"
    by (simp add: fixture_defs matching_def)
  have h3: "iotApi (routinesService [99]) = Some (RoborockIoTApi ''userdata'')"
    "trace (routinesService [99]) = []"
    by (simp_all add: fixture_defs)
  show ?thesis
    using startClean_single_routine [OF h1 h2, of sceneRejected] h1 h2 h3
    by (simp add: sceneRejected_def)
qed

text \<open>
  C2 as stated fails: before authentication there is no IoT API, and with routine 99
  selected \<open>startClean\<close> invokes nothing.
\<close>

theorem startClean_without_iotApi_counterexample:
  "orEmpty (supportedRoutines (unauthenticatedService [99]) ''test-duid'') \<noteq> []
   \<and> matching (orEmpty (selectedAreas (unauthenticatedService [99]) ''test-duid''))
        (orEmpty (supportedRoutines (unauthenticatedService [99]) ''test-duid'')) = [99]
   \<and> trace (snd (startClean (unauthenticatedService [99]) allSettled ''test-duid'')) =
       [Log Debug ''RoborockService - begin cleaning'',
        Log Debug ''RoborockService - startScene'']"
  by (simp add: fixture_defs unauthenticatedService_def startClean_def matching_def emit_def)

text \<open>
  C3. When more than one selected area matches a supported routine, \<open>startClean\<close> logs a
  warning and does nothing else: no scene, no global clean, no room clean.
\<close>

theorem startClean_multiple_routines:
  assumes "length (matching (orEmpty (selectedAreas s d)) (orEmpty (supportedRoutines s d))) > 1"
  shows "startClean s out d =
     (Inr (), s\<lparr>trace := trace s @
        [Log Debug ''RoborockService - begin cleaning'',
         Log Warn ''RoborockService - Multiple routines selected, which is not supported.'']\<rparr>)"
  by (rule startClean_many_routines [OF assms])

theorem startClean_multiple_routines_witness:
  "1 < length (matching (orEmpty (selectedAreas (routinesService [99, 100]) ''test-duid''))
        (orEmpty (supportedRoutines (routinesService [99, 100]) ''test-duid'')))
   \<and> trace (snd (startClean (routinesService [99, 100]) allSettled ''test-duid'')) =
       [Log Debug ''RoborockService - begin cleaning'',
        Log Warn ''RoborockService - Multiple routines selected, which is not supported.'']"
proof -
  have h: "1 < length (matching (orEmpty (selectedAreas (routinesService [99, 100]) ''test-duid''))
        (orEmpty (supportedRoutines (routinesService [99, 100]) ''test-duid'')))"
    by (simp add: fixture_defs matching_def)
  show ?thesis
    using startClean_multiple_routines [OF h, of allSettled] h by (simp add: fixture_defs)
qed

section \<open>Commands on a device without a processor\<close>

text \<open>
  C5 (as amended). For a device with no message processor registered, \<open>pauseClean\<close>,
  \<open>resumeClean\<close>, \<open>stopAndGoHome\<close>, \<open>playSoundToLocate\<close>, \<open>customGet\<close> and \<open>customSend\<close> log
  the missing initialisation and resolve to an undefined result, whatever the processor's
  methods would have done. \<open>startClean\<close> logs the missing initialisation and resolves when no
  selected area matches a supported routine; it resolves as well when more than one matches
  or when there is no IoT API; when exactly one matches and the IoT API exists it starts the
  scene, logs no missing initialisation and settles as \<open>startScene\<close> does, rejecting when
  that rejects. \<open>getCleanModeData\<close> logs the missing initialisation and then throws
  \<open>Failed to retrieve clean mode data\<close>.
\<close>

theorem commands_without_processor:
  assumes "map_of (messageProcessorMap s) d = None"
  shows "pauseClean s outcome d = (Inr (), s\<lparr>trace := trace s @
            [Log Debug ''RoborockService - pauseClean'',
             Log Error ''MessageApi is not initialized.'']\<rparr>)
      \<and> resumeClean s outcome d = (Inr (), s\<lparr>trace := trace s @
            [Log Debug ''RoborockService - resumeClean'',
             Log Error ''MessageApi is not initialized.'']\<rparr>)
      \<and> stopAndGoHome s outcome d = (Inr (), s\<lparr>trace := trace s @
            [Log Debug ''RoborockService - stopAndGoHome'',
             Log Error ''MessageApi is not initialized.'']\<rparr>)
      \<and> playSoundToLocate s outcome d = (Inr (), s\<lparr>trace := trace s @
            [Log Debug ''RoborockService - findMe'',
             Log Error ''MessageApi is not initialized.'']\<rparr>)
      \<and> customGet s answer d request = (Inr None, s\<lparr>trace := trace s @
            [Log Debug ''RoborockService - customSend-message'',
             Log Error ''MessageApi is not initialized.'']\<rparr>)
      \<and> customSend s outcome d request = (Inr (), s\<lparr>trace := trace s @
            [Log Error ''MessageApi is not initialized.'']\<rparr>)
      \<and> getCleanModeData s cleanMode d = (Inl FailedCleanModeData, s\<lparr>trace := trace s @
            [Log Notice ''RoborockService - getCleanModeData'',
             Log Error ''MessageApi is not initialized.'']\<rparr>)
      \<and> (matching (orEmpty (selectedAreas s d)) (orEmpty (supportedRoutines s d)) = [] \<longrightarrow>
           (\<exists>m. startClean s out d = (Inr (), s\<lparr>trace := trace s @
              [Log Debug ''RoborockService - begin cleaning'', Log Debug m,
               Log Error ''MessageApi is not initialized.'']\<rparr>)))
      \<and> (length (matching (orEmpty (selectedAreas s d)) (orEmpty (supportedRoutines s d))) \<noteq> 1
           \<or> iotApi s = None \<longrightarrow> fst (startClean s out d) = Inr ())
      \<and> (\<forall>r api. matching (orEmpty (selectedAreas s d)) (orEmpty (supportedRoutines s d)) = [r]
             \<and> iotApi s = Some api \<longrightarrow>
           startClean s out d = (startSceneOutcome out, s\<lparr>trace := trace s @
              [Log Debug ''RoborockService - begin cleaning'',
               Log Debug ''RoborockService - startScene'',
               Iot api r]\<rparr>))"
proof -
  have 1: "pauseClean s outcome d = (Inr (), s\<lparr>trace := trace s @
            [Log Debug ''RoborockService - pauseClean'',
             Log Error ''MessageApi is not initialized.'']\<rparr>)"
    unfolding pauseClean_def by (rule awaitProcessor_None2 [OF assms])
  have 2: "resumeClean s outcome d = (Inr (), s\<lparr>trace := trace s @
            [Log Debug ''RoborockService - resumeClean'',
             Log Error ''MessageApi is not initialized.'']\<rparr>)"
    unfolding resumeClean_def by (rule awaitProcessor_None2 [OF assms])
  have 3: "stopAndGoHome s outcome d = (Inr (), s\<lparr>trace := trace s @
            [Log Debug ''RoborockService - stopAndGoHome'',
             Log Error ''MessageApi is not initialized.'']\<rparr>)"
    unfolding stopAndGoHome_def by (rule awaitProcessor_None2 [OF assms])
  have 4: "playSoundToLocate s outcome d = (Inr (), s\<lparr>trace := trace s @
            [Log Debug ''RoborockService - findMe'',
             Log Error ''MessageApi is not initialized.'']\<rparr>)"
    unfolding playSoundToLocate_def by (rule awaitProcessor_None2 [OF assms])
  have 5: "customGet s answer d request = (Inr None, s\<lparr>trace := trace s @
            [Log Debug ''RoborockService - customSend-message'',
             Log Error ''MessageApi is not initialized.'']\<rparr>)"
    using assms by (simp add: customGet_def getMessageProcessor_def emit2)
  have 6: "customSend s outcome d request = (Inr (), s\<lparr>trace := trace s @
            [Log Error ''MessageApi is not initialized.'']\<rparr>)"
    unfolding customSend_def by (rule awaitProcessor_None1 [OF assms])
  have 7: "getCleanModeData s cleanMode d = (Inl FailedCleanModeData, s\<lparr>trace := trace s @
            [Log Notice ''RoborockService - getCleanModeData'',
             Log Error ''MessageApi is not initialized.'']\<rparr>)"
    using assms by (simp add: getCleanModeData_def getMessageProcessor_def emit2)
  have 8: "matching (orEmpty (selectedAreas s d)) (orEmpty (supportedRoutines s d)) = [] \<longrightarrow>
           (\<exists>m. startClean s out d = (Inr (), s\<lparr>trace := trace s @
              [Log Debug ''RoborockService - begin cleaning'', Log Debug m,
               Log Error ''MessageApi is not initialized.'']\<rparr>))"
    using startClean_without_processor [OF assms] by (rule_tac impI)
  have 9: "length (matching (orEmpty (selectedAreas s d)) (orEmpty (supportedRoutines s d))) \<noteq> 1
           \<or> iotApi s = None \<longrightarrow> fst (startClean s out d) = Inr ()"
  proof
    assume a: "length (matching (orEmpty (selectedAreas s d)) (orEmpty (supportedRoutines s d))) \<noteq> 1
           \<or> iotApi s = None"
    consider (none) "matching (orEmpty (selectedAreas s d)) (orEmpty (supportedRoutines s d)) = []"
      | (many) "length (matching (orEmpty (selectedAreas s d)) (orEmpty (supportedRoutines s d))) > 1"
      | (one) "length (matching (orEmpty (selectedAreas s d)) (orEmpty (supportedRoutines s d))) = 1"
    proof -
      have "length (matching (orEmpty (selectedAreas s d)) (orEmpty (supportedRoutines s d))) = 0
          \<or> length (matching (orEmpty (selectedAreas s d)) (orEmpty (supportedRoutines s d))) > 1
          \<or> length (matching (orEmpty (selectedAreas s d)) (orEmpty (supportedRoutines s d))) = 1"
        by arith
      then show ?thesis using none many one by auto
    qed
    then show "fst (startClean s out d) = Inr ()"
    proof cases
      case none
      from startClean_without_processor [OF assms none, of out]
      obtain m where e: "startClean s out d = (Inr (), s\<lparr>trace := trace s @
              [Log Debug ''RoborockService - begin cleaning'', Log Debug m,
               Log Error ''MessageApi is not initialized.'']\<rparr>)" ..
      show ?thesis by (simp only: e fst_conv)
    next
      case many
      show ?thesis by (simp only: startClean_many_routines [OF many] fst_conv)
    next
      case one
      then obtain r where r: "matching (orEmpty (selectedAreas s d))
                                (orEmpty (supportedRoutines s d)) = [r]"
        by (auto simp: length_Suc_conv)
      from one a have "iotApi s = None" by simp
      then show ?thesis by (simp add: startClean_one_routine [OF r])
    qed
  qed
  have 10: "\<forall>r api. matching (orEmpty (selectedAreas s d)) (orEmpty (supportedRoutines s d)) = [r]
             \<and> iotApi s = Some api \<longrightarrow>
           startClean s out d = (startSceneOutcome out, s\<lparr>trace := trace s @
              [Log Debug ''RoborockService - begin cleaning'',
               Log Debug ''RoborockService - startScene'',
               Iot api r]\<rparr>)"
  proof (intro allI impI, elim conjE)
    fix r api
    assume r: "matching (orEmpty (selectedAreas s d)) (orEmpty (supportedRoutines s d)) = [r]"
      and api: "iotApi s = Some api"
    show "startClean s out d = (startSceneOutcome out, s\<lparr>trace := trace s @
              [Log Debug ''RoborockService - begin cleaning'',
               Log Debug ''RoborockService - startScene'',
               Iot api r]\<rparr>)"
      by (simp add: startClean_one_routine [OF r] api)
  qed
  from 1 2 3 4 5 6 7 8 9 10 show ?thesis by (intro conjI)
qed

text \<open>
  C5 as stated fails: without a processor \<open>getCleanModeData\<close> throws, and \<open>startClean\<close> with
  a selected routine starts the scene, logs no missing initialisation, and rejects when
  \<open>startScene\<close> rejects.
\<close>

theorem commands_without_processor_counterexample:
  "map_of (messageProcessorMap (idleService [99])) ''test-duid'' = None
   \<and> fst (getCleanModeData (idleService [99]) (Inr None) ''test-duid'') = Inl FailedCleanModeData
   \<and> startClean (idleService [99]) sceneRejected ''test-duid'' =
       (Inl (Rejected ''scene failed''),
        (idleService [99])\<lparr>trace :=
          [Log Debug ''RoborockService - begin cleaning'',
           Log Debug ''RoborockService - startScene'',
           Iot (RoborockIoTApi ''userdata'') 99]\<rparr>)"
  by (simp add: fixture_defs sceneRejected_def startClean_def getCleanModeData_def
      getMessageProcessor_def matching_def emit_def)

theorem commands_without_processor_witness:
  "map_of (messageProcessorMap (idleService [])) ''test-duid'' = None
   \<and> matching (orEmpty (selectedAreas (idleService []) ''test-duid''))
       (orEmpty (supportedRoutines (idleService []) ''test-duid'')) = []
   \<and> pauseClean (idleService []) (Inl (Rejected ''unused'')) ''test-duid'' =
       (Inr (), (idleService [])\<lparr>trace :=
          [Log Debug ''RoborockService - pauseClean'',
           Log Error ''MessageApi is not initialized.'']\<rparr>)
   \<and> fst (customGet (idleService []) (Inr (Some ''x'')) ''test-duid''
            \<lparr>methodName = ''get_status'', params = None, secure = False\<rparr>) = Inr None
   \<and> fst (getCleanModeData (idleService []) (Inr None) ''test-duid'') = Inl FailedCleanModeData
   \<and> fst (startClean (idleService []) sceneRejected ''test-duid'') = Inr ()"
proof -
  have h: "map_of (messageProcessorMap (idleService [])) ''test-duid'' = None"
    by (simp add: fixture_defs)
  have m: "matching (orEmpty (selectedAreas (idleService []) ''test-duid''))
       (orEmpty (supportedRoutines (idleService []) ''test-duid'')) = []"
    by (simp add: fixture_defs)
  have t: "trace (idleService []) = []" by (simp add: fixture_defs)
  show ?thesis
    using commands_without_processor [OF h, of "Inl (Rejected ''unused'')" "Inr (Some ''x'')"
        "\<lparr>methodName = ''get_status'', params = None, secure = False\<rparr>" "Inr None"
        sceneRejected] h m t
    by simp
qed

text \<open>While the client keeps answering "not connected", the loop runs on to \<open>count = 20\<close>.\<close>

lemma waitLocal_never:
  assumes "\<forall>k. \<not> conn k" and "count \<le> 20"
  shows "waitLocal conn c count s =
     (20, s\<lparr>trace := trace s @ localPollTrace c (20 - count)\<rparr>)"
  using assms(2)
proof (induction "20 - count" arbitrary: count s)
  case 0
  then have c: "count = 20" by simp
  show ?case
    by (subst waitLocal.simps) (simp add: c localPollTrace_def emit_def)
next
  case (Suc n)
  then have lt: "count < 20" and n: "n = 20 - Suc count" and le: "Suc count \<le> 20" by simp_all
  have d: "20 - count = Suc (20 - Suc count)" using lt by simp
  have ih: "waitLocal conn c (Suc count) s' =
     (20, s'\<lparr>trace := trace s' @ localPollTrace c (20 - Suc count)\<rparr>)" for s'
    using Suc.hyps(1) [OF n le] .
  show ?case
    apply (subst waitLocal.simps)
    apply (simp only: Let_def assms(1) lt simp_thms if_True ih)
    apply (simp add: d localPollTrace_def emit_def)
    done
qed

lemma waitLocal_le: "count \<le> 20 \<Longrightarrow> fst (waitLocal conn c count s) \<le> 20"
proof (induction conn c count s rule: waitLocal.induct)
  case (1 conn c count s)
  show ?case
  proof (cases "\<not> conn count \<and> count < 20")
    case True
    then have "Suc count \<le> 20" by simp
    then have "fst (waitLocal conn c (Suc count)
                (emit (Sleep 500) (emit (Log Debug ''Keep waiting for local client to connect'')
                   (emit (Client c ClientIsConnected) s)))) \<le> 20"
      using "1.IH" True by simp
    then show ?thesis using True by (subst waitLocal.simps) (simp add: Let_def)
  next
    case False
    then show ?thesis using "1.prems" by (subst waitLocal.simps) (auto simp add: Let_def)
  qed
qed

lemma slept_append: "slept (xs @ ys) = slept xs + slept ys"
  by (induction xs rule: slept.induct) simp_all

lemma slept_localPollTrace: "slept (localPollTrace c n) = 500 * n"
  by (induction n) (simp_all add: localPollTrace_def)


lemma connectLocal_never:
  assumes "\<forall>k. \<not> conn k"
  shows "connectLocal s r dev localIp conn =
     (Inl LocalClientNotConnected,
      s\<lparr>trace := trace s @
          [Log Debug ''initializing the local connection for this client towards'',
           Router r (RegisterClient (dDuid dev) localIp),
           Client (LocalNetworkClient r (dDuid dev) localIp) ClientConnect]
          @ localPollTrace (LocalNetworkClient r (dDuid dev) localIp) 20
          @ [Client (LocalNetworkClient r (dDuid dev) localIp) ClientIsConnected]\<rparr>)"
  unfolding connectLocal_def Let_def
  by (simp add: waitLocal_never [OF assms] assms emit_def)

lemma tryLocal_never:
  assumes nc: "\<forall>k. \<not> conn k"
    and src: "truthy (ipMap s (dDuid dev)) \<or> (\<exists>info. netInfo = Inr (Some info) \<and> truthy (ip info))"
  shows "fst (tryLocal s r p dev netInfo conn) = Inl LocalClientNotConnected
     \<and> localClientMap (snd (tryLocal s r p dev netInfo conn)) = localClientMap s
     \<and> ipMap (snd (tryLocal s r p dev netInfo conn)) = ipMap s
     \<and> mqttAlwaysOnDevices (snd (tryLocal s r p dev netInfo conn)) = mqttAlwaysOnDevices s
     \<and> slept (trace (snd (tryLocal s r p dev netInfo conn))) = slept (trace s) + 10000"
proof (cases "truthy (ipMap s (dDuid dev))")
  case True
  then show ?thesis
    unfolding tryLocal_def
    by (simp add: connectLocal_never [OF nc] slept_append slept_localPollTrace)
next
  case False
  with src obtain info where i: "netInfo = Inr (Some info)" "truthy (ip info)" by blast
  show ?thesis
    unfolding tryLocal_def Let_def
    by (simp add: False i connectLocal_never [OF nc] slept_append slept_localPollTrace)
qed

lemma initLocal_never:
  assumes nc: "\<forall>k. \<not> conn k"
    and mc: "messageClient s = Some r"
    and pv: "pv dev \<noteq> ''B01''"
    and src: "truthy (ipMap s (dDuid dev)) \<or> (\<exists>info. netInfo = Inr (Some info) \<and> truthy (ip info))"
  shows "fst (initializeMessageClientForLocal s dev netInfo conn) = False
     \<and> localClientMap (snd (initializeMessageClientForLocal s dev netInfo conn)) = localClientMap s
     \<and> slept (trace (snd (initializeMessageClientForLocal s dev netInfo conn)))
         = slept (trace s) + 10000
     \<and> last (trace (snd (initializeMessageClientForLocal s dev netInfo conn)))
         = Log Error ''Error requesting network info''"
proof -
  define s6 where "s6 = emit (Log Debug ''Local device'')
     ((emit (Log Debug ''Checking if device supports local connection'')
        ((emit (Proc (MessageProcessor r) (RegisterListener (dDuid dev)))
           (emit (Proc (MessageProcessor r) InjectLogger)
              (emit (Log Debug ''Begin get local ip'') s)))
         \<lparr>messageProcessorMap := AList.update (dDuid dev) (MessageProcessor r)
             (messageProcessorMap (emit (Proc (MessageProcessor r) (RegisterListener (dDuid dev)))
           (emit (Proc (MessageProcessor r) InjectLogger)
              (emit (Log Debug ''Begin get local ip'') s))))\<rparr>))
      \<lparr>mqttAlwaysOnDevices := (mqttAlwaysOnDevices (emit (Log Debug ''Checking if device supports local connection'')
        ((emit (Proc (MessageProcessor r) (RegisterListener (dDuid dev)))
           (emit (Proc (MessageProcessor r) InjectLogger)
              (emit (Log Debug ''Begin get local ip'') s)))
         \<lparr>messageProcessorMap := AList.update (dDuid dev) (MessageProcessor r)
             (messageProcessorMap (emit (Proc (MessageProcessor r) (RegisterListener (dDuid dev)))
           (emit (Proc (MessageProcessor r) InjectLogger)
              (emit (Log Debug ''Begin get local ip'') s))))\<rparr>)))(dDuid dev \<mapsto> False)\<rparr>)"
  have f6: "ipMap s6 = ipMap s" "localClientMap s6 = localClientMap s"
       "slept (trace s6) = slept (trace s)"
    by (simp_all add: s6_def emit_def slept_append)
  have src6: "truthy (ipMap s6 (dDuid dev)) \<or> (\<exists>info. netInfo = Inr (Some info) \<and> truthy (ip info))"
    using src f6 by simp
  obtain e s7 where t: "tryLocal s6 r (MessageProcessor r) dev netInfo conn = (e, s7)"
    by (cases "tryLocal s6 r (MessageProcessor r) dev netInfo conn")
  from tryLocal_never [OF nc src6, of r "MessageProcessor r"] t f6
  have e: "e = Inl LocalClientNotConnected" and l7: "localClientMap s7 = localClientMap s"
    and sl: "slept (trace s7) = slept (trace s) + 10000"
    by simp_all
  have "initializeMessageClientForLocal s dev netInfo conn =
          (False, emit (Log Error ''Error requesting network info'') s7)"
    unfolding initializeMessageClientForLocal_def Let_def
    using mc pv t e by (simp add: s6_def)
  then show ?thesis using l7 sl by (simp add: slept_append)
qed


lemmas fixture_defs2 = connectedService_def vacuum_def testService_def newService_def

section \<open>The local connection gives up after 20 rounds\<close>

text \<open>
  C4. If the local client never reports connected, the wait loop of
  \<open>initializeMessageClientForLocal\<close> runs exactly 20 rounds of 500 ms (10 s in all; for any
  client it runs at most 20), the error \<open>Local client did not connect\<close> is thrown inside the
  \<open>try\<close> block, and the method logs it, registers no local client and returns \<open>false\<close>.
\<close>

theorem local_connect_gives_up:
  assumes "\<forall>k. \<not> conn k"
  shows "fst (waitLocal anyConn c 0 s) \<le> 20
     \<and> waitLocal conn c 0 s = (20, s\<lparr>trace := trace s @ localPollTrace c 20\<rparr>)
     \<and> slept (localPollTrace c 20) = 10000
     \<and> fst (connectLocal s r dev localIp conn) = Inl LocalClientNotConnected
     \<and> (messageClient s = Some r \<and> pv dev \<noteq> ''B01''
          \<and> (truthy (ipMap s (dDuid dev))
              \<or> (\<exists>info. netInfo = Inr (Some info) \<and> truthy (ip info))) \<longrightarrow>
          fst (initializeMessageClientForLocal s dev netInfo conn) = False
          \<and> localClientMap (snd (initializeMessageClientForLocal s dev netInfo conn))
               = localClientMap s
          \<and> slept (trace (snd (initializeMessageClientForLocal s dev netInfo conn)))
               = slept (trace s) + 10000
          \<and> last (trace (snd (initializeMessageClientForLocal s dev netInfo conn)))
               = Log Error ''Error requesting network info'')"
proof -
  have 1: "fst (waitLocal anyConn c 0 s) \<le> 20"
    by (rule waitLocal_le) simp
  have 2: "waitLocal conn c 0 s = (20, s\<lparr>trace := trace s @ localPollTrace c 20\<rparr>)"
    using waitLocal_never [OF assms, of 0 c s] by simp
  have 3: "slept (localPollTrace c 20) = 10000"
    by (simp add: slept_localPollTrace)
  have 4: "fst (connectLocal s r dev localIp conn) = Inl LocalClientNotConnected"
    by (simp add: connectLocal_never [OF assms])
  have 5: "messageClient s = Some r \<and> pv dev \<noteq> ''B01''
          \<and> (truthy (ipMap s (dDuid dev))
              \<or> (\<exists>info. netInfo = Inr (Some info) \<and> truthy (ip info))) \<longrightarrow>
          fst (initializeMessageClientForLocal s dev netInfo conn) = False
          \<and> localClientMap (snd (initializeMessageClientForLocal s dev netInfo conn))
               = localClientMap s
          \<and> slept (trace (snd (initializeMessageClientForLocal s dev netInfo conn)))
               = slept (trace s) + 10000
          \<and> last (trace (snd (initializeMessageClientForLocal s dev netInfo conn)))
               = Log Error ''Error requesting network info''"
  proof (intro impI, elim conjE)
    assume a: "messageClient s = Some r" "pv dev \<noteq> ''B01''"
      "truthy (ipMap s (dDuid dev)) \<or> (\<exists>info. netInfo = Inr (Some info) \<and> truthy (ip info))"
    show "fst (initializeMessageClientForLocal s dev netInfo conn) = False
          \<and> localClientMap (snd (initializeMessageClientForLocal s dev netInfo conn))
               = localClientMap s
          \<and> slept (trace (snd (initializeMessageClientForLocal s dev netInfo conn)))
               = slept (trace s) + 10000
          \<and> last (trace (snd (initializeMessageClientForLocal s dev netInfo conn)))
               = Log Error ''Error requesting network info''"
      by (rule initLocal_never [OF assms a])
  qed
  from 1 2 3 4 5 show ?thesis by (intro conjI)
qed

theorem local_connect_gives_up_witness:
  "fst (initializeMessageClientForLocal connectedService (vacuum ''test-duid'' ''1.0'')
          (Inr (Some \<lparr>ip = Some ''192.168.1.20''\<rparr>)) (\<lambda>k. False)) = False
   \<and> localClientMap (snd (initializeMessageClientForLocal connectedService
          (vacuum ''test-duid'' ''1.0'') (Inr (Some \<lparr>ip = Some ''192.168.1.20''\<rparr>)) (\<lambda>k. False))) = []
   \<and> slept (trace (snd (initializeMessageClientForLocal connectedService
          (vacuum ''test-duid'' ''1.0'') (Inr (Some \<lparr>ip = Some ''192.168.1.20''\<rparr>)) (\<lambda>k. False)))) = 10000"
proof -
  have h: "\<forall>k. \<not> (\<lambda>k. False) k" by simp
  have p: "messageClient connectedService = Some 0 \<and> pv (vacuum ''test-duid'' ''1.0'') \<noteq> ''B01''
     \<and> (truthy (ipMap connectedService (dDuid (vacuum ''test-duid'' ''1.0'')))
         \<or> (\<exists>info. Inr (Some \<lparr>ip = Some ''192.168.1.20''\<rparr>) = Inr (Some info) \<and> truthy (ip info)))"
    by (simp add: fixture_defs2 truthy_def)
  have l: "localClientMap connectedService = []" "slept (trace connectedService) = 0"
    by (simp_all add: fixture_defs2)
  show ?thesis
    using local_connect_gives_up [OF h, where s = connectedService and r = 0
       and dev = "vacuum ''test-duid'' ''1.0''"
       and netInfo = "Inr (Some \<lparr>ip = Some ''192.168.1.20''\<rparr>)"] p l
    by simp
qed

section \<open>The stored selection\<close>








section \<open>The cloud connection is awaited without bound\<close>

lemma pollTrace_Suc:
  "pollTrace r (Suc n) = [Router r RouterIsConnected, Sleep 500] @ pollTrace r n"
  by (simp add: pollTrace_def)

lemma waitConnected_reaches:
  "conn (k + n) \<Longrightarrow> (\<forall>j<n. \<not> conn (k + j)) \<Longrightarrow>
   waitConnected conn r k s = Some (k + n, s\<lparr>trace := trace s @ pollTrace r n\<rparr>)"
proof (induction n arbitrary: k s)
  case 0
  then show ?case
    by (subst waitConnected.simps) (simp add: pollTrace_def emit_def)
next
  case (Suc n)
  have nk: "\<not> conn k" using Suc.prems(2) by (metis add.right_neutral zero_less_Suc)
  have c: "conn (Suc k + n)" using Suc.prems(1) by simp
  have a: "\<forall>j<n. \<not> conn (Suc k + j)"
  proof (intro allI impI)
    fix j assume "j < n"
    then have "Suc j < Suc n" by simp
    then have "\<not> conn (k + Suc j)" using Suc.prems(2) by blast
    then show "\<not> conn (Suc k + j)" by simp
  qed
  show ?case
    apply (subst waitConnected.simps)
    apply (simp only: Let_def nk simp_thms if_True Suc.IH [OF c a])
    apply (simp add: pollTrace_Suc emit_def)
    done
qed

lemma waitConnected_sound:
  assumes w: "waitConnected conn r k s = Some y"
  shows "k \<le> fst y \<and> conn (fst y) \<and> (\<forall>j. k \<le> j \<and> j < fst y \<longrightarrow> \<not> conn j)
   \<and> snd y = s\<lparr>trace := trace s @ pollTrace r (fst y - k)\<rparr>"
proof (rule waitConnected.raw_induct [where P = "\<lambda>conn r k s y.
     k \<le> fst y \<and> conn (fst y) \<and> (\<forall>j. k \<le> j \<and> j < fst y \<longrightarrow> \<not> conn j)
     \<and> snd y = s\<lparr>trace := trace s @ pollTrace r (fst y - k)\<rparr>", OF _ w])
  fix f :: "(nat \<Rightarrow> bool) \<Rightarrow> clientRouter \<Rightarrow> nat \<Rightarrow> service \<Rightarrow> (nat \<times> service) option"
  fix conn r k s y
  assume IH: "\<And>conn r k s y. f conn r k s = Some y \<Longrightarrow>
     k \<le> fst y \<and> conn (fst y) \<and> (\<forall>j. k \<le> j \<and> j < fst y \<longrightarrow> \<not> conn j)
     \<and> snd y = s\<lparr>trace := trace s @ pollTrace r (fst y - k)\<rparr>"
  assume eq: "(let s1 = emit (Router r RouterIsConnected) s
      in if \<not> conn k then f conn r (Suc k) (emit (Sleep 500) s1)
         else Some (k, s1)) = Some y"
  show "k \<le> fst y \<and> conn (fst y) \<and> (\<forall>j. k \<le> j \<and> j < fst y \<longrightarrow> \<not> conn j)
     \<and> snd y = s\<lparr>trace := trace s @ pollTrace r (fst y - k)\<rparr>"
  proof (cases "conn k")
    case True
    then have "y = (k, emit (Router r RouterIsConnected) s)"
      using eq by (simp add: Let_def)
    then show ?thesis using True by (auto simp add: pollTrace_def emit_def)
  next
    case False
    then have "f conn r (Suc k) (emit (Sleep 500) (emit (Router r RouterIsConnected) s)) = Some y"
      using eq by (simp add: Let_def)
    from IH [OF this]
    have ih: "Suc k \<le> fst y" "conn (fst y)" "\<forall>j. Suc k \<le> j \<and> j < fst y \<longrightarrow> \<not> conn j"
      "snd y = (emit (Sleep 500) (emit (Router r RouterIsConnected) s))
          \<lparr>trace := trace (emit (Sleep 500) (emit (Router r RouterIsConnected) s))
                     @ pollTrace r (fst y - Suc k)\<rparr>"
      by simp_all
    have d: "fst y - k = Suc (fst y - Suc k)" using ih(1) by simp
    have "\<forall>j. k \<le> j \<and> j < fst y \<longrightarrow> \<not> conn j"
    proof (intro allI impI)
      fix j assume j: "k \<le> j \<and> j < fst y"
      show "\<not> conn j"
      proof (cases "j = k")
        case True then show ?thesis using False by simp
      next
        case False
        then have "Suc k \<le> j \<and> j < fst y" using j by simp
        then show ?thesis using ih(3) by blast
      qed
    qed
    moreover have "snd y = s\<lparr>trace := trace s @ pollTrace r (fst y - k)\<rparr>"
      unfolding d pollTrace_Suc using ih(4) by (simp add: emit_def)
    ultimately show ?thesis using ih(1,2) by simp
  qed
qed

lemma waitConnected_never:
  assumes "\<forall>j. \<not> conn j"
  shows "waitConnected conn r k s = None"
proof (cases "waitConnected conn r k s")
  case None then show ?thesis .
next
  case (Some y)
  from waitConnected_sound [OF Some] have "conn (fst y)" by simp
  then show ?thesis using assms by simp
qed


lemma initializeMessageClient_unfold:
  assumes "clientManager s = Some cm"
  shows "initializeMessageClient s u dev ud conn =
     (case waitConnected conn (cm u ud) 0
         (s\<lparr>messageClient := Some (cm u ud),
            trace := trace s @
              [Router (cm u ud) (RegisterDevice (dDuid dev) (localKey dev) (pv dev)),
               Router (cm u ud) RegisterMessageListener,
               Router (cm u ud) RouterConnect]\<rparr>) of
        None \<Rightarrow> None
      | Some (n, s5) \<Rightarrow> Some (n, emit (Log Debug ''MessageClient connected'') s5))"
  using assms by (simp add: initializeMessageClient_def Let_def emit_def)

lemma initializeMessageClient_reaches:
  assumes cm: "clientManager s = Some cm" and c: "conn n" and nc: "\<forall>j<n. \<not> conn j"
  shows "initializeMessageClient s u dev ud conn =
     Some (n, s\<lparr>messageClient := Some (cm u ud),
                trace := trace s @
                  [Router (cm u ud) (RegisterDevice (dDuid dev) (localKey dev) (pv dev)),
                   Router (cm u ud) RegisterMessageListener,
                   Router (cm u ud) RouterConnect]
                  @ pollTrace (cm u ud) n
                  @ [Log Debug ''MessageClient connected'']\<rparr>)"
proof -
  have c0: "conn (0 + n)" using c by simp
  have nc0: "\<forall>j<n. \<not> conn (0 + j)" using nc by simp
  show ?thesis
    unfolding initializeMessageClient_unfold [OF cm] waitConnected_reaches [OF c0 nc0]
    by (simp add: emit_def)
qed

lemma initializeMessageClient_sound:
  assumes cm: "clientManager s = Some cm"
    and r: "initializeMessageClient s u dev ud conn = Some (n, s')"
  shows "conn n \<and> (\<forall>j<n. \<not> conn j)
     \<and> s' = s\<lparr>messageClient := Some (cm u ud),
               trace := trace s @
                  [Router (cm u ud) (RegisterDevice (dDuid dev) (localKey dev) (pv dev)),
                   Router (cm u ud) RegisterMessageListener,
                   Router (cm u ud) RouterConnect]
                  @ pollTrace (cm u ud) n
                  @ [Log Debug ''MessageClient connected'']\<rparr>"
proof -
  obtain s5 where w: "waitConnected conn (cm u ud) 0
         (s\<lparr>messageClient := Some (cm u ud),
            trace := trace s @
              [Router (cm u ud) (RegisterDevice (dDuid dev) (localKey dev) (pv dev)),
               Router (cm u ud) RegisterMessageListener,
               Router (cm u ud) RouterConnect]\<rparr>) = Some (n, s5)"
    using r unfolding initializeMessageClient_unfold [OF cm]
    by (auto split: option.splits)
  from waitConnected_sound [OF w] have c: "conn n" and nc: "\<forall>j<n. \<not> conn j"
    by simp_all
  have "initializeMessageClient s u dev ud conn =
     Some (n, s\<lparr>messageClient := Some (cm u ud),
                trace := trace s @
                  [Router (cm u ud) (RegisterDevice (dDuid dev) (localKey dev) (pv dev)),
                   Router (cm u ud) RegisterMessageListener,
                   Router (cm u ud) RouterConnect]
                  @ pollTrace (cm u ud) n
                  @ [Log Debug ''MessageClient connected'']\<rparr>)"
    by (rule initializeMessageClient_reaches [OF cm c nc])
  with r have "s' = s\<lparr>messageClient := Some (cm u ud),
                trace := trace s @
                  [Router (cm u ud) (RegisterDevice (dDuid dev) (localKey dev) (pv dev)),
                   Router (cm u ud) RegisterMessageListener,
                   Router (cm u ud) RouterConnect]
                  @ pollTrace (cm u ud) n
                  @ [Log Debug ''MessageClient connected'']\<rparr>"
    by simp
  with c nc show ?thesis by (intro conjI)
qed

lemma initializeMessageClient_never:
  assumes cm: "clientManager s = Some cm" and nc: "\<forall>k. \<not> conn k"
  shows "initializeMessageClient s u dev ud conn = None"
  unfolding initializeMessageClient_unfold [OF cm] waitConnected_never [OF nc]
  by simp

text \<open>
  C7. \<open>initializeMessageClient\<close> (with a client manager, as its type demands) polls
  \<open>isConnected\<close> of the cloud router and sleeps 500 ms after each negative answer. If it
  returns after \<open>n\<close> rounds, the \<open>n\<close>-th answer was the first positive one; if no answer is
  positive it never returns; and for every \<open>n\<close> there is a run that returns after more than
  \<open>n\<close> rounds, having slept 500 ms in each.
\<close>

theorem cloud_wait_unbounded:
  assumes "clientManager s = Some cm"
  shows "(\<forall>n s'. initializeMessageClient s u dev ud conn = Some (n, s') \<longrightarrow>
            conn n \<and> (\<forall>j<n. \<not> conn j)
            \<and> s' = s\<lparr>messageClient := Some (cm u ud),
                  trace := trace s @
                    [Router (cm u ud) (RegisterDevice (dDuid dev) (localKey dev) (pv dev)),
                     Router (cm u ud) RegisterMessageListener,
                     Router (cm u ud) RouterConnect]
                    @ pollTrace (cm u ud) n
                    @ [Log Debug ''MessageClient connected'']\<rparr>)
     \<and> ((\<forall>k. \<not> conn k) \<longrightarrow> initializeMessageClient s u dev ud conn = None)
     \<and> (\<forall>n. \<exists>m s'. n < m
            \<and> initializeMessageClient s u dev ud (\<lambda>k. n < k) = Some (m, s')
            \<and> slept (trace s') = slept (trace s) + 500 * m)"
proof -
  have A: "\<forall>n s'. initializeMessageClient s u dev ud conn = Some (n, s') \<longrightarrow>
            conn n \<and> (\<forall>j<n. \<not> conn j)
            \<and> s' = s\<lparr>messageClient := Some (cm u ud),
                  trace := trace s @
                    [Router (cm u ud) (RegisterDevice (dDuid dev) (localKey dev) (pv dev)),
                     Router (cm u ud) RegisterMessageListener,
                     Router (cm u ud) RouterConnect]
                    @ pollTrace (cm u ud) n
                    @ [Log Debug ''MessageClient connected'']\<rparr>"
  proof (intro allI impI)
    fix n s'
    assume r: "initializeMessageClient s u dev ud conn = Some (n, s')"
    show "conn n \<and> (\<forall>j<n. \<not> conn j)
            \<and> s' = s\<lparr>messageClient := Some (cm u ud),
                  trace := trace s @
                    [Router (cm u ud) (RegisterDevice (dDuid dev) (localKey dev) (pv dev)),
                     Router (cm u ud) RegisterMessageListener,
                     Router (cm u ud) RouterConnect]
                    @ pollTrace (cm u ud) n
                    @ [Log Debug ''MessageClient connected'']\<rparr>"
      by (rule initializeMessageClient_sound [OF assms r])
  qed
  have B: "(\<forall>k. \<not> conn k) \<longrightarrow> initializeMessageClient s u dev ud conn = None"
  proof
    assume "\<forall>k. \<not> conn k"
    then show "initializeMessageClient s u dev ud conn = None"
      by (rule initializeMessageClient_never [OF assms])
  qed
  have C: "\<forall>n. \<exists>m s'. n < m
            \<and> initializeMessageClient s u dev ud (\<lambda>k. n < k) = Some (m, s')
            \<and> slept (trace s') = slept (trace s) + 500 * m"
  proof
    fix n
    have c: "(\<lambda>k. n < k) (Suc n)" by simp
    have nc: "\<forall>j<Suc n. \<not> (\<lambda>k. n < k) j" by simp
    have sl: "slept (pollTrace r m) = 500 * m" for r m
      by (induction m) (simp_all add: pollTrace_def)
    have e: "initializeMessageClient s u dev ud (\<lambda>k. n < k) =
       Some (Suc n, s\<lparr>messageClient := Some (cm u ud),
                  trace := trace s @
                    [Router (cm u ud) (RegisterDevice (dDuid dev) (localKey dev) (pv dev)),
                     Router (cm u ud) RegisterMessageListener,
                     Router (cm u ud) RouterConnect]
                    @ pollTrace (cm u ud) (Suc n)
                    @ [Log Debug ''MessageClient connected'']\<rparr>)"
      by (rule initializeMessageClient_reaches [OF assms c nc])
    show "\<exists>m s'. n < m \<and> initializeMessageClient s u dev ud (\<lambda>k. n < k) = Some (m, s')
              \<and> slept (trace s') = slept (trace s) + 500 * m"
      apply (rule exI [where x = "Suc n"])
      apply (rule exI [where x = "s\<lparr>messageClient := Some (cm u ud),
                  trace := trace s @
                    [Router (cm u ud) (RegisterDevice (dDuid dev) (localKey dev) (pv dev)),
                     Router (cm u ud) RegisterMessageListener,
                     Router (cm u ud) RouterConnect]
                    @ pollTrace (cm u ud) (Suc n)
                    @ [Log Debug ''MessageClient connected'']\<rparr>"])
      apply (simp only: e)
      apply (simp add: slept_append sl del: replicate.simps)
      done
  qed
  from A B C show ?thesis by (intro conjI)
qed

theorem cloud_wait_unbounded_witness:
  "clientManager testService = Some (\<lambda>u d. 0)
   \<and> initializeMessageClient testService ''user'' (vacuum ''test-duid'' ''1.0'') ''userdata''
        (\<lambda>k. False) = None
   \<and> (\<exists>m s'. 7 < m \<and> initializeMessageClient testService ''user''
          (vacuum ''test-duid'' ''1.0'') ''userdata'' (\<lambda>k. 7 < k) = Some (m, s')
          \<and> slept (trace s') = slept (trace testService) + 500 * m)"
proof -
  have h: "clientManager testService = Some (\<lambda>u d. 0)"
    by (simp add: testService_def newService_def)
  show ?thesis
    using cloud_wait_unbounded [OF h, of "''user''" "vacuum ''test-duid'' ''1.0''" "''userdata''"
       "\<lambda>k. False"] h
    by simp
qed

section \<open>Shutdown\<close>

lemma disconnectLocalClients_frame:
  "disconnectLocalClients s = s\<lparr>localClientMap := [], trace := trace (disconnectLocalClients s)\<rparr>"
proof (induction s rule: disconnectLocalClients.induct)
  case (1 s)
  show ?case
  proof (cases "localClientMap s")
    case Nil
    then show ?thesis by (subst (1 2) disconnectLocalClients.simps) simp
  next
    case (Cons e es)
    obtain d c where e: "e = (d, c)" by (cases e)
    define s' where "s' = emit (Log Debug ''Local client disconnected for device'')
       ((emit (Client c ClientDisconnect) (emit (Log Debug ''Disconnecting local client for device'') s))
          \<lparr>localClientMap := AList.delete d (localClientMap
             (emit (Client c ClientDisconnect) (emit (Log Debug ''Disconnecting local client for device'') s)))\<rparr>)"
    have step: "disconnectLocalClients s = disconnectLocalClients s'"
      by (subst disconnectLocalClients.simps) (simp add: Cons e s'_def Let_def)
    have ih: "disconnectLocalClients s' =
        s'\<lparr>localClientMap := [], trace := trace (disconnectLocalClients s')\<rparr>"
      unfolding s'_def
      by (rule "1.IH" [OF Cons e [symmetric] refl refl refl])
    have "s'\<lparr>localClientMap := [], trace := t\<rparr> = s\<lparr>localClientMap := [], trace := t\<rparr>" for t
      by (simp add: s'_def emit_def)
    with ih show ?thesis unfolding step by simp
  qed
qed


lemma disconnectLocalClients_step:
  assumes "localClientMap s = (d, c) # es"
  shows "disconnectLocalClients s =
     disconnectLocalClients
       (s\<lparr>localClientMap := AList.delete d es,
          trace := trace s @ [Log Debug ''Disconnecting local client for device'',
                              Client c ClientDisconnect,
                              Log Debug ''Local client disconnected for device'']\<rparr>)"
  by (subst disconnectLocalClients.simps) (simp add: assms Let_def emit_def AList.delete_eq)

lemma disconnectLocalClients_Nil:
  "localClientMap s = [] \<Longrightarrow> disconnectLocalClients s = s"
  by (subst disconnectLocalClients.simps) simp

text \<open>The loop only appends to the trace.\<close>

lemma disconnectLocalClients_trace_mono:
  "set (trace s) \<subseteq> set (trace (disconnectLocalClients s))"
proof (induction "length (localClientMap s)" arbitrary: s rule: less_induct)
  case less
  show ?case
  proof (cases "localClientMap s")
    case Nil
    then show ?thesis by (simp add: disconnectLocalClients_Nil)
  next
    case (Cons e es)
    obtain d c where e: "e = (d, c)" by (cases e)
    define s' where "s' = s\<lparr>localClientMap := AList.delete d es,
          trace := trace s @ [Log Debug ''Disconnecting local client for device'',
                              Client c ClientDisconnect,
                              Log Debug ''Local client disconnected for device'']\<rparr>"
    have step: "disconnectLocalClients s = disconnectLocalClients s'"
      unfolding s'_def using Cons e by (simp add: disconnectLocalClients_step)
    have "length (localClientMap s') < length (localClientMap s)"
      by (simp add: s'_def Cons AList.delete_eq le_imp_less_Suc)
    from less [OF this] have "set (trace s') \<subseteq> set (trace (disconnectLocalClients s'))" .
    moreover have "set (trace s) \<subseteq> set (trace s')" by (auto simp: s'_def)
    ultimately show ?thesis unfolding step by blast
  qed
qed

text \<open>Every client that \<open>get\<close> of the map finds is disconnected.\<close>

lemma disconnectLocalClients_all:
  "map_of (localClientMap s) d = Some c \<Longrightarrow>
   Client c ClientDisconnect \<in> set (trace (disconnectLocalClients s))"
proof (induction "length (localClientMap s)" arbitrary: s rule: less_induct)
  case less
  show ?case
  proof (cases "localClientMap s")
    case Nil
    then show ?thesis using less.prems by simp
  next
    case (Cons e es)
    obtain d' c' where e: "e = (d', c')" by (cases e)
    define s' where "s' = s\<lparr>localClientMap := AList.delete d' es,
          trace := trace s @ [Log Debug ''Disconnecting local client for device'',
                              Client c' ClientDisconnect,
                              Log Debug ''Local client disconnected for device'']\<rparr>"
    have step: "disconnectLocalClients s = disconnectLocalClients s'"
      unfolding s'_def using Cons e by (simp add: disconnectLocalClients_step)
    have len: "length (localClientMap s') < length (localClientMap s)"
      by (simp add: s'_def Cons AList.delete_eq le_imp_less_Suc)
    show ?thesis
    proof (cases "d = d'")
      case True
      then have "c = c'" using less.prems Cons e by simp
      then have "Client c ClientDisconnect \<in> set (trace s')" by (simp add: s'_def)
      then show ?thesis
        unfolding step using disconnectLocalClients_trace_mono [of s'] by blast
    next
      case False
      then have "map_of (localClientMap s') d = Some c"
        using less.prems Cons e by (simp add: s'_def AList.delete_conv')
      from less.hyps [OF len this] show ?thesis unfolding step .
    qed
  qed
qed

lemma removeMessageProcessors_frame:
  "removeMessageProcessors s =
     s\<lparr>messageProcessorMap := [], trace := trace (removeMessageProcessors s)\<rparr>"
proof (induction "length (messageProcessorMap s)" arbitrary: s rule: less_induct)
  case less
  show ?case
  proof (cases "messageProcessorMap s")
    case Nil
    then show ?thesis by (subst (1 2) removeMessageProcessors.simps) simp
  next
    case (Cons e es)
    obtain d p where e: "e = (d, p)" by (cases e)
    define s' where "s' = s\<lparr>messageProcessorMap := AList.delete d es,
          trace := trace s @ [Log Debug ''Disconnecting message processor for device'',
                              Log Debug ''Message processor disconnected for device'']\<rparr>"
    have step: "removeMessageProcessors s = removeMessageProcessors s'"
      by (subst removeMessageProcessors.simps)
         (simp add: Cons e s'_def Let_def emit_def AList.delete_eq)
    have len: "length (messageProcessorMap s') < length (messageProcessorMap s)"
      by (simp add: s'_def Cons AList.delete_eq le_imp_less_Suc)
    have "s'\<lparr>messageProcessorMap := [], trace := t\<rparr> = s\<lparr>messageProcessorMap := [], trace := t\<rparr>" for t
      by (simp add: s'_def)
    with less [OF len] show ?thesis unfolding step by simp
  qed
qed

text \<open>
  What \<open>stopService\<close> leaves: both maps empty, no message client, no stored timer, and
  the timer table without the stored handle. Every other field is as before.
\<close>

lemma stopService_frame:
  "stopService s =
     s\<lparr>messageClient := None, localClientMap := [], messageProcessorMap := [],
       requestDeviceStatusInterval := None,
       activeTimers := (case requestDeviceStatusInterval s of
                          None \<Rightarrow> activeTimers s
                        | Some t \<Rightarrow> filter (\<lambda>e. fst e \<noteq> t) (activeTimers s)),
       trace := trace (stopService s)\<rparr>"
proof -
  define s1 where "s1 = (case messageClient s of
                  None \<Rightarrow> s
                | Some r \<Rightarrow> (emit (Router r RouterDisconnect) s)\<lparr>messageClient := None\<rparr>)"
  define s2 where "s2 = (if length (localClientMap s1) > 0 then disconnectLocalClients s1 else s1)"
  define s3 where "s3 = (if length (messageProcessorMap s2) > 0 then removeMessageProcessors s2 else s2)"
  have e1: "s1 = s\<lparr>messageClient := None, trace := trace s1\<rparr>"
    by (cases "messageClient s") (simp_all add: s1_def emit_def)
  have e2: "s2 = s1\<lparr>localClientMap := [], trace := trace s2\<rparr>"
  proof (cases "length (localClientMap s1) > 0")
    case True
    then show ?thesis unfolding s2_def using disconnectLocalClients_frame [of s1] by simp
  next
    case False
    then show ?thesis unfolding s2_def by simp
  qed
  have e3: "s3 = s2\<lparr>messageProcessorMap := [], trace := trace s3\<rparr>"
  proof (cases "length (messageProcessorMap s2) > 0")
    case True
    then show ?thesis unfolding s3_def using removeMessageProcessors_frame [of s2] by simp
  next
    case False
    then show ?thesis unfolding s3_def by simp
  qed
  have e: "s3 = s\<lparr>messageClient := None, localClientMap := [], messageProcessorMap := [],
                  trace := trace s3\<rparr>"
    by (subst e3, subst e2, subst e1) simp
  have st: "stopService s = (case requestDeviceStatusInterval s3 of
           None \<Rightarrow> s3
         | Some t \<Rightarrow> (clearInterval t s3)\<lparr>requestDeviceStatusInterval := None\<rparr>)"
    unfolding stopService_def Let_def s3_def s2_def s1_def by (rule refl)
  have f: "requestDeviceStatusInterval s3 = requestDeviceStatusInterval s"
    "activeTimers s3 = activeTimers s"
    by (subst e, simp)+
  show ?thesis
  proof (cases "requestDeviceStatusInterval s")
    case None
    then have x: "stopService s = s3" using st f by simp
    have "s3 = s\<lparr>messageClient := None, localClientMap := [], messageProcessorMap := [],
         requestDeviceStatusInterval := requestDeviceStatusInterval s,
         activeTimers := activeTimers s,
         trace := trace s3\<rparr>"
      by (subst e) simp
    then show ?thesis using None x by simp
  next
    case (Some t)
    then have x: "stopService s = (clearInterval t s3)\<lparr>requestDeviceStatusInterval := None\<rparr>"
      using st f by simp
    have "(clearInterval t s3)\<lparr>requestDeviceStatusInterval := None\<rparr> =
       s\<lparr>messageClient := None, localClientMap := [], messageProcessorMap := [],
         requestDeviceStatusInterval := None,
         activeTimers := filter (\<lambda>e. fst e \<noteq> t) (activeTimers s),
         trace := trace s3 @ [ClearInterval t]\<rparr>"
      by (subst e) (simp add: clearInterval_def emit_def f)
    then show ?thesis using Some x by simp
  qed
qed


section \<open>Status timers\<close>

lemma getMessageProcessor_fields:
  "fst (getMessageProcessor s d) = map_of (messageProcessorMap s) d"
  "activeTimers (snd (getMessageProcessor s d)) = activeTimers s"
  "nextTimer (snd (getMessageProcessor s d)) = nextTimer s"
  "refreshInterval (snd (getMessageProcessor s d)) = refreshInterval s"
  "messageProcessorMap (snd (getMessageProcessor s d)) = messageProcessorMap s"
  by (simp_all add: getMessageProcessor_def split: option.splits)

lemma getMessageProcessor_trace:
  "trace (snd (getMessageProcessor s d)) =
     trace s @ (case map_of (messageProcessorMap s) d of
                  None \<Rightarrow> [Log Error ''MessageApi is not initialized.''] | Some p \<Rightarrow> [])"
  by (simp add: getMessageProcessor_def split: option.splits)

lemma activateDeviceNotify_timers:
  "requestDeviceStatusInterval (activateDeviceNotify s dev) = Some (nextTimer s)"
  "activeTimers (activateDeviceNotify s dev) =
     activeTimers s @ [(nextTimer s, refreshInterval s * 1000,
                        StatusTick (map_of (messageProcessorMap s) (dDuid dev)) (dDuid dev))]"
  "nextTimer (activateDeviceNotify s dev) = Suc (nextTimer s)"
  "refreshInterval (activateDeviceNotify s dev) = refreshInterval s"
  "messageProcessorMap (activateDeviceNotify s dev) = messageProcessorMap s"
  "trace (activateDeviceNotify s dev) =
     trace s @ [Log Debug ''Requesting device info for device'']
     @ (case map_of (messageProcessorMap s) (dDuid dev) of
          None \<Rightarrow> [Log Error ''MessageApi is not initialized.''] | Some p \<Rightarrow> [])
     @ [SetInterval (nextTimer s) (refreshInterval s * 1000)]"
  by (simp_all add: activateDeviceNotify_def setInterval_def Let_def split_beta
      getMessageProcessor_fields getMessageProcessor_trace)

lemma activateDeviceNotifyOverMQTT_timers:
  "requestDeviceStatusInterval (activateDeviceNotifyOverMQTT s dev) = Some (nextTimer s)"
  "activeTimers (activateDeviceNotifyOverMQTT s dev) =
     activeTimers s @ [(nextTimer s, refreshInterval s * 500,
                        StatusTickMQTT (map_of (messageProcessorMap s) (dDuid dev)) (dDuid dev))]"
  "nextTimer (activateDeviceNotifyOverMQTT s dev) = Suc (nextTimer s)"
  "refreshInterval (activateDeviceNotifyOverMQTT s dev) = refreshInterval s"
  "messageProcessorMap (activateDeviceNotifyOverMQTT s dev) = messageProcessorMap s"
  "trace (activateDeviceNotifyOverMQTT s dev) =
     trace s @ [Log Notice ''Requesting device info for device over MQTT'']
     @ (case map_of (messageProcessorMap s) (dDuid dev) of
          None \<Rightarrow> [Log Error ''MessageApi is not initialized.''] | Some p \<Rightarrow> [])
     @ [SetInterval (nextTimer s) (refreshInterval s * 500)]"
  by (simp_all add: activateDeviceNotifyOverMQTT_def setInterval_def Let_def split_beta
      getMessageProcessor_fields getMessageProcessor_trace)

lemma activate_timers:
  "requestDeviceStatusInterval (activate s a) = Some (nextTimer s)"
  "\<exists>e. activeTimers (activate s a) = activeTimers s @ [e] \<and> fst e = nextTimer s"
  "nextTimer (activate s a) = Suc (nextTimer s)"
  by (cases a; simp add: activateDeviceNotify_timers activateDeviceNotifyOverMQTT_timers)+

lemma activate_fresh: "timersFresh s \<Longrightarrow> timersFresh (activate s a)"
proof -
  assume f: "timersFresh s"
  obtain e where e: "activeTimers (activate s a) = activeTimers s @ [e]" "fst e = nextTimer s"
    using activate_timers(2) by blast
  have "list_all (\<lambda>e. fst e < Suc (nextTimer s)) (activeTimers s)"
    using f unfolding timersFresh_def by (simp add: list_all_iff less_Suc_eq)
  then show ?thesis
    unfolding timersFresh_def by (simp add: e activate_timers(3))
qed

lemma foldl_activate_fresh: "timersFresh s \<Longrightarrow> timersFresh (foldl activate s acts)"
  by (induction acts arbitrary: s) (simp_all add: activate_fresh)

lemma foldl_activate_length:
  "length (activeTimers (foldl activate s acts)) = length (activeTimers s) + length acts"
proof (induction acts arbitrary: s)
  case Nil
  show ?case by simp
next
  case (Cons a acts)
  obtain e where e: "activeTimers (activate s a) = activeTimers s @ [e]"
    using activate_timers(2) by blast
  show ?case by (simp add: Cons.IH e)
qed

lemma stopService_after_activate:
  assumes "timersFresh s"
  shows "activeTimers (stopService (activate s a)) = activeTimers s"
proof -
  obtain e where e: "activeTimers (activate s a) = activeTimers s @ [e]" "fst e = nextTimer s"
    using activate_timers(2) by blast
  have "filter (\<lambda>x. fst x \<noteq> nextTimer s) (activeTimers s) = activeTimers s"
    using assms unfolding timersFresh_def by (auto simp add: list_all_iff filter_id_conv)
  then show ?thesis
    by (subst stopService_frame) (simp add: activate_timers(1) e)
qed

lemma removeMessageProcessors_trace_mono:
  "set (trace s) \<subseteq> set (trace (removeMessageProcessors s))"
proof (induction "length (messageProcessorMap s)" arbitrary: s rule: less_induct)
  case less
  show ?case
  proof (cases "messageProcessorMap s")
    case Nil
    then show ?thesis by (subst removeMessageProcessors.simps) simp
  next
    case (Cons e es)
    obtain d p where e: "e = (d, p)" by (cases e)
    define s' where "s' = s\<lparr>messageProcessorMap := AList.delete d es,
          trace := trace s @ [Log Debug ''Disconnecting message processor for device'',
                              Log Debug ''Message processor disconnected for device'']\<rparr>"
    have step: "removeMessageProcessors s = removeMessageProcessors s'"
      by (subst removeMessageProcessors.simps)
         (simp add: Cons e s'_def Let_def emit_def AList.delete_eq)
    have len: "length (messageProcessorMap s') < length (messageProcessorMap s)"
      by (simp add: s'_def Cons AList.delete_eq le_imp_less_Suc)
    from less [OF len] have "set (trace s') \<subseteq> set (trace (removeMessageProcessors s'))" .
    moreover have "set (trace s) \<subseteq> set (trace s')" by (auto simp: s'_def)
    ultimately show ?thesis unfolding step by blast
  qed
qed

text \<open>\<open>stopService\<close> disconnects the message client and every registered local client.\<close>

lemma stopService_disconnects:
  "(messageClient s = Some r \<longrightarrow> Router r RouterDisconnect \<in> set (trace (stopService s)))
   \<and> (map_of (localClientMap s) d = Some c \<longrightarrow>
        Client c ClientDisconnect \<in> set (trace (stopService s)))"
proof -
  define s1 where "s1 = (case messageClient s of
                  None \<Rightarrow> s
                | Some r \<Rightarrow> (emit (Router r RouterDisconnect) s)\<lparr>messageClient := None\<rparr>)"
  define s2 where "s2 = (if length (localClientMap s1) > 0 then disconnectLocalClients s1 else s1)"
  define s3 where "s3 = (if length (messageProcessorMap s2) > 0 then removeMessageProcessors s2 else s2)"
  have st: "stopService s = (case requestDeviceStatusInterval s3 of
           None \<Rightarrow> s3
         | Some t \<Rightarrow> (clearInterval t s3)\<lparr>requestDeviceStatusInterval := None\<rparr>)"
    unfolding stopService_def Let_def s3_def s2_def s1_def by (rule refl)
  have m1: "localClientMap s1 = localClientMap s"
    by (cases "messageClient s") (simp_all add: s1_def)
  have t1: "messageClient s = Some r \<longrightarrow> Router r RouterDisconnect \<in> set (trace s1)"
    by (simp add: s1_def)
  have t12: "set (trace s1) \<subseteq> set (trace s2)"
    unfolding s2_def using disconnectLocalClients_trace_mono [of s1] by simp
  have t2: "map_of (localClientMap s) d = Some c \<longrightarrow> Client c ClientDisconnect \<in> set (trace s2)"
  proof
    assume a: "map_of (localClientMap s) d = Some c"
    then have ne: "length (localClientMap s1) > 0" unfolding m1 by (cases "localClientMap s") simp_all
    have "map_of (localClientMap s1) d = Some c" using a m1 by simp
    from disconnectLocalClients_all [OF this]
    show "Client c ClientDisconnect \<in> set (trace s2)" unfolding s2_def using ne by simp
  qed
  have t23: "set (trace s2) \<subseteq> set (trace s3)"
    unfolding s3_def using removeMessageProcessors_trace_mono [of s2] by simp
  have t3: "set (trace s3) \<subseteq> set (trace (stopService s))"
    unfolding st by (cases "requestDeviceStatusInterval s3") (auto simp: clearInterval_def emit_def)
  from t1 t12 t2 t23 t3 show ?thesis by blast
qed

text \<open>
  C9. Each of \<open>activateDeviceNotify\<close> and \<open>activateDeviceNotifyOverMQTT\<close> stores the new
  handle in \<open>requestDeviceStatusInterval\<close> and adds one timer to the timer table, clearing
  none. So a run of activations adds as many timers as it has activations, and \<open>stopService\<close>
  after a non-empty run removes the last timer only: every earlier one stays in the table.
\<close>

theorem status_timer_overwritten:
  "requestDeviceStatusInterval (activateDeviceNotify s dev) = Some (nextTimer s)
   \<and> activeTimers (activateDeviceNotify s dev) =
       activeTimers s @ [(nextTimer s, refreshInterval s * 1000,
                          StatusTick (map_of (messageProcessorMap s) (dDuid dev)) (dDuid dev))]
   \<and> (\<forall>t. ClearInterval t \<in> set (trace (activateDeviceNotify s dev))
            \<longrightarrow> ClearInterval t \<in> set (trace s))
   \<and> requestDeviceStatusInterval (activateDeviceNotifyOverMQTT s dev) = Some (nextTimer s)
   \<and> activeTimers (activateDeviceNotifyOverMQTT s dev) =
       activeTimers s @ [(nextTimer s, refreshInterval s * 500,
                          StatusTickMQTT (map_of (messageProcessorMap s) (dDuid dev)) (dDuid dev))]
   \<and> (\<forall>t. ClearInterval t \<in> set (trace (activateDeviceNotifyOverMQTT s dev))
            \<longrightarrow> ClearInterval t \<in> set (trace s))
   \<and> length (activeTimers (foldl activate s acts)) = length (activeTimers s) + length acts
   \<and> (timersFresh s \<and> acts \<noteq> [] \<longrightarrow>
        activeTimers (stopService (foldl activate s acts))
          = butlast (activeTimers (foldl activate s acts)))"
proof -
  have 1: "\<forall>t. ClearInterval t \<in> set (trace (activateDeviceNotify s dev))
            \<longrightarrow> ClearInterval t \<in> set (trace s)"
    by (auto simp: activateDeviceNotify_timers split: option.splits)
  have 2: "\<forall>t. ClearInterval t \<in> set (trace (activateDeviceNotifyOverMQTT s dev))
            \<longrightarrow> ClearInterval t \<in> set (trace s)"
    by (auto simp: activateDeviceNotifyOverMQTT_timers split: option.splits)
  have 3: "timersFresh s \<and> acts \<noteq> [] \<longrightarrow>
        activeTimers (stopService (foldl activate s acts))
          = butlast (activeTimers (foldl activate s acts))"
  proof (intro impI, elim conjE)
    assume f: "timersFresh s" and ne: "acts \<noteq> []"
    obtain as a where acts: "acts = as @ [a]"
      using ne by (cases acts rule: rev_cases) simp_all
    define s1 where "s1 = foldl activate s as"
    have f1: "timersFresh s1" unfolding s1_def by (rule foldl_activate_fresh [OF f])
    obtain e where e: "activeTimers (activate s1 a) = activeTimers s1 @ [e]"
      using activate_timers(2) by blast
    have "activeTimers (stopService (activate s1 a)) = activeTimers s1"
      by (rule stopService_after_activate [OF f1])
    then show "activeTimers (stopService (foldl activate s acts))
          = butlast (activeTimers (foldl activate s acts))"
      by (simp add: acts s1_def [symmetric] e)
  qed
  from 1 2 3 show ?thesis
    by (simp only: activateDeviceNotify_timers activateDeviceNotifyOverMQTT_timers
        foldl_activate_length simp_thms)
qed

theorem status_timer_overwritten_witness:
  "timersFresh twoVacuums
   \<and> activeTimers (foldl activate twoVacuums
        [Local (vacuum ''test-duid'' ''1.0''), OverMQTT (vacuum ''duid-2'' ''1.0'')]) =
       [(0, 10000, StatusTick (Some (MessageProcessor 0)) ''test-duid''),
        (1, 5000, StatusTickMQTT (Some (MessageProcessor 0)) ''duid-2'')]
   \<and> activeTimers (stopService (foldl activate twoVacuums
        [Local (vacuum ''test-duid'' ''1.0''), OverMQTT (vacuum ''duid-2'' ''1.0'')])) =
       [(0, 10000, StatusTick (Some (MessageProcessor 0)) ''test-duid'')]"
proof -
  have f: "timersFresh twoVacuums"
    by (simp add: timersFresh_def twoVacuums_def connectedService_def testService_def newService_def)
  have a: "activeTimers (foldl activate twoVacuums
        [Local (vacuum ''test-duid'' ''1.0''), OverMQTT (vacuum ''duid-2'' ''1.0'')]) =
       [(0, 10000, StatusTick (Some (MessageProcessor 0)) ''test-duid''),
        (1, 5000, StatusTickMQTT (Some (MessageProcessor 0)) ''duid-2'')]"
    by (simp add: activateDeviceNotify_timers activateDeviceNotifyOverMQTT_timers
        twoVacuums_def connectedService_def testService_def newService_def vacuum_def)
  show ?thesis
    using status_timer_overwritten [of twoVacuums _
        "[Local (vacuum ''test-duid'' ''1.0''), OverMQTT (vacuum ''duid-2'' ''1.0'')]"] f a
    by simp
qed

text \<open>
  C8. After \<open>stopService\<close> the maps are empty, the clients are disconnected and the stored
  timer is cleared (\<open>stopService_frame\<close>, \<open>stopService_disconnects\<close>). But status ticks may
  go on: with two vacuums activated before the shutdown, the timer of the first is still in
  the timer table afterwards, and when it fires it calls \<open>getDeviceStatus\<close> on the processor
  that the shutdown has removed from the map.
\<close>

theorem stopService_leaves_timer_running:
  "requestDeviceStatusInterval
      (stopService (activateDeviceNotify
         (activateDeviceNotify twoVacuums (vacuum ''test-duid'' ''1.0''))
         (vacuum ''duid-2'' ''1.0''))) = None
   \<and> messageProcessorMap
      (stopService (activateDeviceNotify
         (activateDeviceNotify twoVacuums (vacuum ''test-duid'' ''1.0''))
         (vacuum ''duid-2'' ''1.0''))) = []
   \<and> activeTimers
      (stopService (activateDeviceNotify
         (activateDeviceNotify twoVacuums (vacuum ''test-duid'' ''1.0''))
         (vacuum ''duid-2'' ''1.0''))) =
       [(0, 10000, StatusTick (Some (MessageProcessor 0)) ''test-duid'')]
   \<and> last (trace (fireTimer 0 None
      (stopService (activateDeviceNotify
         (activateDeviceNotify twoVacuums (vacuum ''test-duid'' ''1.0''))
         (vacuum ''duid-2'' ''1.0''))))) =
       Proc (MessageProcessor 0) (GetDeviceStatus ''test-duid'')"
proof -
  define S where "S = stopService (activateDeviceNotify
         (activateDeviceNotify twoVacuums (vacuum ''test-duid'' ''1.0''))
         (vacuum ''duid-2'' ''1.0''))"
  have a: "activeTimers S = [(0, 10000, StatusTick (Some (MessageProcessor 0)) ''test-duid'')]"
    unfolding S_def
    by (subst stopService_frame)
       (simp add: activateDeviceNotify_timers twoVacuums_def connectedService_def
          testService_def newService_def vacuum_def)
  have b: "requestDeviceStatusInterval S = None" "messageProcessorMap S = []"
    unfolding S_def by (subst stopService_frame, simp)+
  have c: "last (trace (fireTimer 0 None S)) = Proc (MessageProcessor 0) (GetDeviceStatus ''test-duid'')"
    by (simp add: fireTimer_def a)
  from a b c show ?thesis unfolding S_def by (intro conjI)
qed

section \<open>Cloud-only devices\<close>

text \<open>The cloud-always flags are written by \<open>initializeMessageClientForLocal\<close> and by nothing else.\<close>

lemma flags_getMessageProcessor:
  "mqttAlwaysOnDevices (snd (getMessageProcessor s d)) = mqttAlwaysOnDevices s"
  by (simp add: getMessageProcessor_def split: option.splits)

lemma flags_onProcessor: "mqttAlwaysOnDevices (onProcessor s d c) = mqttAlwaysOnDevices s"
  by (simp add: onProcessor_def getMessageProcessor_def split: option.splits)

lemma flags_awaitProcessor:
  "mqttAlwaysOnDevices (snd (awaitProcessor s d c outcome)) = mqttAlwaysOnDevices s"
  by (simp add: awaitProcessor_def getMessageProcessor_def split: option.splits)

lemma flags_startClean:
  "mqttAlwaysOnDevices (snd (startClean s out d)) = mqttAlwaysOnDevices s"
  unfolding startClean_def Let_def
  by (simp add: flags_onProcessor flags_awaitProcessor split: option.splits)

lemma flags_commands:
  "mqttAlwaysOnDevices (snd (pauseClean s outcome d)) = mqttAlwaysOnDevices s"
  "mqttAlwaysOnDevices (snd (resumeClean s outcome d)) = mqttAlwaysOnDevices s"
  "mqttAlwaysOnDevices (snd (stopAndGoHome s outcome d)) = mqttAlwaysOnDevices s"
  "mqttAlwaysOnDevices (snd (playSoundToLocate s outcome d)) = mqttAlwaysOnDevices s"
  "mqttAlwaysOnDevices (snd (customSend s outcome d request)) = mqttAlwaysOnDevices s"
  by (simp_all add: pauseClean_def resumeClean_def stopAndGoHome_def playSoundToLocate_def
      customSend_def flags_awaitProcessor)

lemma flags_queries:
  "mqttAlwaysOnDevices (snd (customGet s answer d request)) = mqttAlwaysOnDevices s"
  "mqttAlwaysOnDevices (snd (getCleanModeData s cleanMode d)) = mqttAlwaysOnDevices s"
  "mqttAlwaysOnDevices (snd (getRoomMappings s rooms d)) = mqttAlwaysOnDevices s"
  by (simp_all add: customGet_def getCleanModeData_def getRoomMappings_def
      getMessageProcessor_def Let_def split: option.splits sum.splits)

lemma flags_setters:
  "mqttAlwaysOnDevices (setSelectedAreas s d areas) = mqttAlwaysOnDevices s"
  "mqttAlwaysOnDevices (setSupportedAreas s d as) = mqttAlwaysOnDevices s"
  "mqttAlwaysOnDevices (setSupportedAreaIndexMap s d m) = mqttAlwaysOnDevices s"
  "mqttAlwaysOnDevices (setSupportedScenes s d rs) = mqttAlwaysOnDevices s"
  "mqttAlwaysOnDevices (setDeviceNotify s) = mqttAlwaysOnDevices s"
  by (simp_all add: setSelectedAreas_def setSupportedAreas_def setSupportedAreaIndexMap_def
      setSupportedScenes_def setDeviceNotify_def Let_def)

lemma flags_stopService: "mqttAlwaysOnDevices (stopService s) = mqttAlwaysOnDevices s"
  by (subst stopService_frame) simp

lemma flags_activate:
  "mqttAlwaysOnDevices (activateDeviceNotify s dev) = mqttAlwaysOnDevices s"
  "mqttAlwaysOnDevices (activateDeviceNotifyOverMQTT s dev) = mqttAlwaysOnDevices s"
  by (simp_all add: activateDeviceNotify_def activateDeviceNotifyOverMQTT_def setInterval_def
      Let_def split_beta flags_getMessageProcessor)

lemma flags_runTick: "mqttAlwaysOnDevices (runTick f response s) = mqttAlwaysOnDevices s"
  by (cases "(f, response, s)" rule: runTick.cases) (simp_all add: Let_def split: option.splits)

lemma flags_fireTimer: "mqttAlwaysOnDevices (fireTimer t response s) = mqttAlwaysOnDevices s"
  by (simp add: fireTimer_def flags_runTick split: option.splits)

lemma flags_initializeMessageClient:
  assumes "initializeMessageClient s username dev ud conn = Some y"
  shows "mqttAlwaysOnDevices (snd y) = mqttAlwaysOnDevices s"
proof (cases "clientManager s")
  case None
  then show ?thesis using assms by (auto simp: initializeMessageClient_def)
next
  case (Some cm)
  obtain n s' where y: "y = (n, s')" by (cases y)
  from initializeMessageClient_sound [OF Some assms [unfolded y]]
  have "s' = s\<lparr>messageClient := Some (cm username ud),
               trace := trace s @
                  [Router (cm username ud) (RegisterDevice (dDuid dev) (localKey dev) (pv dev)),
                   Router (cm username ud) RegisterMessageListener,
                   Router (cm username ud) RouterConnect]
                  @ pollTrace (cm username ud) n
                  @ [Log Debug ''MessageClient connected'']\<rparr>"
    by simp
  then have "mqttAlwaysOnDevices s' = mqttAlwaysOnDevices s" by simp
  then show ?thesis by (simp add: y)
qed

lemma flags_waitLocal:
  "mqttAlwaysOnDevices (snd (waitLocal conn c count s)) = mqttAlwaysOnDevices s"
proof (induction conn c count s rule: waitLocal.induct)
  case (1 conn c count s)
  show ?case
  proof (cases "\<not> conn count \<and> count < 20")
    case True
    then have "mqttAlwaysOnDevices (snd (waitLocal conn c (Suc count)
                (emit (Sleep 500) (emit (Log Debug ''Keep waiting for local client to connect'')
                   (emit (Client c ClientIsConnected) s))))) = mqttAlwaysOnDevices s"
      using "1.IH" by simp
    then show ?thesis using True by (subst waitLocal.simps) (simp add: Let_def)
  next
    case False
    then show ?thesis by (subst waitLocal.simps) (auto simp add: Let_def)
  qed
qed

lemma flags_connectLocal:
  "mqttAlwaysOnDevices (snd (connectLocal s r dev localIp conn)) = mqttAlwaysOnDevices s"
proof -
  obtain n s4 where w: "waitLocal conn (LocalNetworkClient r (dDuid dev) localIp) 0
      (emit (Client (LocalNetworkClient r (dDuid dev) localIp) ClientConnect)
         (emit (Router r (RegisterClient (dDuid dev) localIp))
            (emit (Log Debug ''initializing the local connection for this client towards'') s)))
      = (n, s4)"
    by (cases "waitLocal conn (LocalNetworkClient r (dDuid dev) localIp) 0
      (emit (Client (LocalNetworkClient r (dDuid dev) localIp) ClientConnect)
         (emit (Router r (RegisterClient (dDuid dev) localIp))
            (emit (Log Debug ''initializing the local connection for this client towards'') s)))")
  have "mqttAlwaysOnDevices s4 = mqttAlwaysOnDevices s"
    using flags_waitLocal [of conn "LocalNetworkClient r (dDuid dev) localIp" 0
      "emit (Client (LocalNetworkClient r (dDuid dev) localIp) ClientConnect)
         (emit (Router r (RegisterClient (dDuid dev) localIp))
            (emit (Log Debug ''initializing the local connection for this client towards'') s))"]
    by (simp add: w)
  then show ?thesis
    unfolding connectLocal_def Let_def by (simp add: w)
qed

lemma flags_tryLocal:
  "mqttAlwaysOnDevices (snd (tryLocal s r p dev netInfo conn)) = mqttAlwaysOnDevices s"
  unfolding tryLocal_def Let_def
  by (simp add: flags_connectLocal split: sum.splits option.splits)

text \<open>What a local initialisation does to the flags.\<close>

lemma flags_initializeMessageClientForLocal:
  "mqttAlwaysOnDevices (snd (initializeMessageClientForLocal s dev netInfo conn)) =
     (case messageClient s of
        None \<Rightarrow> mqttAlwaysOnDevices s
      | Some r \<Rightarrow> (mqttAlwaysOnDevices s)(dDuid dev \<mapsto> (pv dev = ''B01'')))"
proof (cases "messageClient s")
  case None
  then show ?thesis by (simp add: initializeMessageClientForLocal_def Let_def)
next
  case (Some r)
  show ?thesis
  proof (cases "pv dev = ''B01''")
    case True
    then show ?thesis using Some by (simp add: initializeMessageClientForLocal_def Let_def)
  next
    case False
    define s6 where "s6 = emit (Log Debug ''Local device'')
       ((emit (Log Debug ''Checking if device supports local connection'')
          ((emit (Proc (MessageProcessor r) (RegisterListener (dDuid dev)))
             (emit (Proc (MessageProcessor r) InjectLogger)
                (emit (Log Debug ''Begin get local ip'') s)))
           \<lparr>messageProcessorMap := AList.update (dDuid dev) (MessageProcessor r)
               (messageProcessorMap s)\<rparr>))
        \<lparr>mqttAlwaysOnDevices := (mqttAlwaysOnDevices s)(dDuid dev \<mapsto> False)\<rparr>)"
    obtain e s7 where t: "tryLocal s6 r (MessageProcessor r) dev netInfo conn = (e, s7)"
      by (cases "tryLocal s6 r (MessageProcessor r) dev netInfo conn")
    have "mqttAlwaysOnDevices s7 = mqttAlwaysOnDevices s6"
      using flags_tryLocal [of s6 r "MessageProcessor r" dev netInfo conn] by (simp add: t)
    then have f7: "mqttAlwaysOnDevices s7 = (mqttAlwaysOnDevices s)(dDuid dev \<mapsto> False)"
      by (simp add: s6_def)
    have "snd (initializeMessageClientForLocal s dev netInfo conn) = s7
        \<or> snd (initializeMessageClientForLocal s dev netInfo conn)
             = emit (Log Error ''Error requesting network info'') s7"
      unfolding initializeMessageClientForLocal_def Let_def
      using Some False t by (simp add: s6_def split: sum.splits bool.splits)
    then show ?thesis using f7 Some False by auto
  qed
qed

lemma exec_keeps_flag:
  assumes "isRequestSecure s d" and "keepsCloudOnly d c" and "exec s c = Some s'"
  shows "isRequestSecure s' d"
proof (cases c)
  case (DoInitializeMessageClient username dev ud conn)
  then obtain y where y: "initializeMessageClient s username dev ud conn = Some y" "s' = snd y"
    using assms(3) by auto
  from flags_initializeMessageClient [OF y(1)] assms(1) y(2)
  show ?thesis by (simp add: isRequestSecure_def)
next
  case (DoInitializeMessageClientForLocal dev netInfo conn)
  then have s': "s' = snd (initializeMessageClientForLocal s dev netInfo conn)"
    and k: "dDuid dev \<noteq> d \<or> pv dev = ''B01''"
    using assms(2,3) by simp_all
  show ?thesis
    using assms(1) k unfolding s' isRequestSecure_def flags_initializeMessageClientForLocal
    by (auto split: option.splits)
qed (use assms(1,3) in \<open>auto simp: isRequestSecure_def flags_startClean flags_commands
      flags_queries flags_setters flags_stopService flags_activate flags_fireTimer\<close>)

lemma execAll_keeps_flag:
  "isRequestSecure s d \<Longrightarrow> list_all (keepsCloudOnly d) cs \<Longrightarrow> execAll s cs = Some s' \<Longrightarrow>
   isRequestSecure s' d"
proof (induction cs arbitrary: s)
  case Nil
  then show ?case by simp
next
  case (Cons c cs)
  from Cons.prems(3) obtain s1 where s1: "exec s c = Some s1" "execAll s1 cs = Some s'"
    by (auto split: option.splits)
  have "isRequestSecure s1 d"
    using exec_keeps_flag [OF Cons.prems(1) _ s1(1)] Cons.prems(2) by simp
  then show ?case using Cons.IH s1(2) Cons.prems(2) by simp
qed

text \<open>
  C6 (as amended). For a device with protocol version \<open>B01\<close>: if there is no message
  client, \<open>initializeMessageClientForLocal\<close> logs an error, returns \<open>false\<close> and sets no flag.
  If there is one, it sets the cloud-always flag of the device, asks for no network info,
  registers and connects no local client, and returns \<open>true\<close>; and after any run of later
  commands that does not initialise the same device id locally with another protocol
  version, \<open>isRequestSecure\<close> holds for the device and the request that \<open>getRoomMappings\<close>
  builds with it carries \<open>secure = true\<close>.
\<close>

theorem cloud_only_device:
  assumes "pv dev = ''B01''"
  shows "(messageClient s = None \<longrightarrow>
           initializeMessageClientForLocal s dev netInfo conn =
             (False, s\<lparr>trace := trace s @
                [Log Debug ''Begin get local ip'',
                 Log Error ''messageClient not initialized'']\<rparr>))
   \<and> (\<forall>r. messageClient s = Some r \<longrightarrow>
         initializeMessageClientForLocal s dev netInfo conn =
           (True, s\<lparr>messageProcessorMap :=
                      AList.update (dDuid dev) (MessageProcessor r) (messageProcessorMap s),
                    mqttAlwaysOnDevices := (mqttAlwaysOnDevices s)(dDuid dev \<mapsto> True),
                    trace := trace s @
                      [Log Debug ''Begin get local ip'',
                       Proc (MessageProcessor r) InjectLogger,
                       Proc (MessageProcessor r) (RegisterListener (dDuid dev)),
                       Log Debug ''Checking if device supports local connection'',
                       Log Warn ''Device does not support local connection'']\<rparr>)
         \<and> (\<forall>cs s'. list_all (keepsCloudOnly (dDuid dev)) cs
               \<and> execAll (snd (initializeMessageClientForLocal s dev netInfo conn)) cs = Some s'
               \<longrightarrow> isRequestSecure s' (dDuid dev)
                 \<and> roomMappingRequest s' (dDuid dev) =
                     \<lparr>methodName = ''get_room_mapping'', params = None, secure = True\<rparr>
                 \<and> (\<forall>r' answer. messageClient s' = Some r' \<longrightarrow>
                       getRoomMappings s' answer (dDuid dev) =
                         (answer, emit (Router r' (RouterGet (dDuid dev)
                            \<lparr>methodName = ''get_room_mapping'', params = None,
                              secure = True\<rparr>)) s'))))"
proof -
  have A: "messageClient s = None \<longrightarrow>
           initializeMessageClientForLocal s dev netInfo conn =
             (False, s\<lparr>trace := trace s @
                [Log Debug ''Begin get local ip'',
                 Log Error ''messageClient not initialized'']\<rparr>)"
    by (simp add: initializeMessageClientForLocal_def Let_def emit_def)
  have B: "\<forall>r. messageClient s = Some r \<longrightarrow>
         initializeMessageClientForLocal s dev netInfo conn =
           (True, s\<lparr>messageProcessorMap :=
                      AList.update (dDuid dev) (MessageProcessor r) (messageProcessorMap s),
                    mqttAlwaysOnDevices := (mqttAlwaysOnDevices s)(dDuid dev \<mapsto> True),
                    trace := trace s @
                      [Log Debug ''Begin get local ip'',
                       Proc (MessageProcessor r) InjectLogger,
                       Proc (MessageProcessor r) (RegisterListener (dDuid dev)),
                       Log Debug ''Checking if device supports local connection'',
                       Log Warn ''Device does not support local connection'']\<rparr>)
         \<and> (\<forall>cs s'. list_all (keepsCloudOnly (dDuid dev)) cs
               \<and> execAll (snd (initializeMessageClientForLocal s dev netInfo conn)) cs = Some s'
               \<longrightarrow> isRequestSecure s' (dDuid dev)
                 \<and> roomMappingRequest s' (dDuid dev) =
                     \<lparr>methodName = ''get_room_mapping'', params = None, secure = True\<rparr>
                 \<and> (\<forall>r' answer. messageClient s' = Some r' \<longrightarrow>
                       getRoomMappings s' answer (dDuid dev) =
                         (answer, emit (Router r' (RouterGet (dDuid dev)
                            \<lparr>methodName = ''get_room_mapping'', params = None,
                              secure = True\<rparr>)) s')))"
  proof (intro allI impI)
    fix r
    assume mc: "messageClient s = Some r"
    have eq: "initializeMessageClientForLocal s dev netInfo conn =
           (True, s\<lparr>messageProcessorMap :=
                      AList.update (dDuid dev) (MessageProcessor r) (messageProcessorMap s),
                    mqttAlwaysOnDevices := (mqttAlwaysOnDevices s)(dDuid dev \<mapsto> True),
                    trace := trace s @
                      [Log Debug ''Begin get local ip'',
                       Proc (MessageProcessor r) InjectLogger,
                       Proc (MessageProcessor r) (RegisterListener (dDuid dev)),
                       Log Debug ''Checking if device supports local connection'',
                       Log Warn ''Device does not support local connection'']\<rparr>)"
      using assms mc unfolding initializeMessageClientForLocal_def Let_def
      by (simp add: emit_def)
    have sec: "isRequestSecure (snd (initializeMessageClientForLocal s dev netInfo conn)) (dDuid dev)"
      unfolding eq by (simp add: isRequestSecure_def)
    have later: "\<forall>cs s'. list_all (keepsCloudOnly (dDuid dev)) cs
               \<and> execAll (snd (initializeMessageClientForLocal s dev netInfo conn)) cs = Some s'
               \<longrightarrow> isRequestSecure s' (dDuid dev)
                 \<and> roomMappingRequest s' (dDuid dev) =
                     \<lparr>methodName = ''get_room_mapping'', params = None, secure = True\<rparr>
                 \<and> (\<forall>r' answer. messageClient s' = Some r' \<longrightarrow>
                       getRoomMappings s' answer (dDuid dev) =
                         (answer, emit (Router r' (RouterGet (dDuid dev)
                            \<lparr>methodName = ''get_room_mapping'', params = None,
                              secure = True\<rparr>)) s'))"
    proof (intro allI impI, elim conjE)
      fix cs s'
      assume k: "list_all (keepsCloudOnly (dDuid dev)) cs"
        and e: "execAll (snd (initializeMessageClientForLocal s dev netInfo conn)) cs = Some s'"
      have s: "isRequestSecure s' (dDuid dev)"
        by (rule execAll_keeps_flag [OF sec k e])
      then have q: "roomMappingRequest s' (dDuid dev) =
                     \<lparr>methodName = ''get_room_mapping'', params = None, secure = True\<rparr>"
        by (simp add: roomMappingRequest_def)
      have g: "\<forall>r' answer. messageClient s' = Some r' \<longrightarrow>
                       getRoomMappings s' answer (dDuid dev) =
                         (answer, emit (Router r' (RouterGet (dDuid dev)
                            \<lparr>methodName = ''get_room_mapping'', params = None,
                              secure = True\<rparr>)) s')"
        by (simp add: getRoomMappings_def q)
      from s q g show "isRequestSecure s' (dDuid dev)
                 \<and> roomMappingRequest s' (dDuid dev) =
                     \<lparr>methodName = ''get_room_mapping'', params = None, secure = True\<rparr>
                 \<and> (\<forall>r' answer. messageClient s' = Some r' \<longrightarrow>
                       getRoomMappings s' answer (dDuid dev) =
                         (answer, emit (Router r' (RouterGet (dDuid dev)
                            \<lparr>methodName = ''get_room_mapping'', params = None,
                              secure = True\<rparr>)) s'))"
        by (intro conjI)
    qed
    from eq later show "initializeMessageClientForLocal s dev netInfo conn =
           (True, s\<lparr>messageProcessorMap :=
                      AList.update (dDuid dev) (MessageProcessor r) (messageProcessorMap s),
                    mqttAlwaysOnDevices := (mqttAlwaysOnDevices s)(dDuid dev \<mapsto> True),
                    trace := trace s @
                      [Log Debug ''Begin get local ip'',
                       Proc (MessageProcessor r) InjectLogger,
                       Proc (MessageProcessor r) (RegisterListener (dDuid dev)),
                       Log Debug ''Checking if device supports local connection'',
                       Log Warn ''Device does not support local connection'']\<rparr>)
         \<and> (\<forall>cs s'. list_all (keepsCloudOnly (dDuid dev)) cs
               \<and> execAll (snd (initializeMessageClientForLocal s dev netInfo conn)) cs = Some s'
               \<longrightarrow> isRequestSecure s' (dDuid dev)
                 \<and> roomMappingRequest s' (dDuid dev) =
                     \<lparr>methodName = ''get_room_mapping'', params = None, secure = True\<rparr>
                 \<and> (\<forall>r' answer. messageClient s' = Some r' \<longrightarrow>
                       getRoomMappings s' answer (dDuid dev) =
                         (answer, emit (Router r' (RouterGet (dDuid dev)
                            \<lparr>methodName = ''get_room_mapping'', params = None,
                              secure = True\<rparr>)) s')))"
      by (rule conjI)
  qed
  from A B show ?thesis by (rule conjI)
qed

text \<open>
  A \<open>B01\<close> vacuum on a connected service; afterwards a pause, a shutdown, and the local
  initialisation of a second vacuum.
\<close>

theorem cloud_only_device_witness:
  "pv (vacuum ''test-duid'' ''B01'') = ''B01''
   \<and> fst (initializeMessageClientForLocal connectedService (vacuum ''test-duid'' ''B01'')
          (Inl (Rejected ''unused'')) neverConnected) = True
   \<and> localClientMap (snd (initializeMessageClientForLocal connectedService
          (vacuum ''test-duid'' ''B01'') (Inl (Rejected ''unused'')) neverConnected)) = []
   \<and> isRequestSecure
        (snd (initializeMessageClientForLocal
           (stopService (snd (pauseClean
              (snd (initializeMessageClientForLocal connectedService
                 (vacuum ''test-duid'' ''B01'') (Inl (Rejected ''unused'')) neverConnected))
              (Inr ()) ''test-duid'')))
           (vacuum ''duid-2'' ''1.0'') (Inr None) neverConnected))
        ''test-duid''"
proof -
  have h1: "pv (vacuum ''test-duid'' ''B01'') = ''B01''" by (simp add: fixture_defs2)
  have h2: "messageClient connectedService = Some 0" by (simp add: fixture_defs2)
  have d: "dDuid (vacuum ''test-duid'' ''B01'') = ''test-duid''" by (simp add: fixture_defs2)
  have l: "localClientMap connectedService = []" by (simp add: fixture_defs2)
  have k: "list_all (keepsCloudOnly (dDuid (vacuum ''test-duid'' ''B01'')))
     [DoPauseClean (Inr ()) ''test-duid'', DoStopService,
      DoInitializeMessageClientForLocal (vacuum ''duid-2'' ''1.0'') (Inr None) neverConnected]"
    by (simp add: fixture_defs2)
  have e: "execAll (snd (initializeMessageClientForLocal connectedService
                 (vacuum ''test-duid'' ''B01'') (Inl (Rejected ''unused'')) neverConnected))
     [DoPauseClean (Inr ()) ''test-duid'', DoStopService,
      DoInitializeMessageClientForLocal (vacuum ''duid-2'' ''1.0'') (Inr None) neverConnected]
     = Some (snd (initializeMessageClientForLocal
           (stopService (snd (pauseClean
              (snd (initializeMessageClientForLocal connectedService
                 (vacuum ''test-duid'' ''B01'') (Inl (Rejected ''unused'')) neverConnected))
              (Inr ()) ''test-duid'')))
           (vacuum ''duid-2'' ''1.0'') (Inr None) neverConnected))"
    by simp
  note now = cloud_only_device [OF h1, of connectedService "Inl (Rejected ''unused'')"
      neverConnected, THEN conjunct2, rule_format, OF h2]
  have 1: "fst (initializeMessageClientForLocal connectedService (vacuum ''test-duid'' ''B01'')
          (Inl (Rejected ''unused'')) neverConnected) = True"
    and 2: "localClientMap (snd (initializeMessageClientForLocal connectedService
          (vacuum ''test-duid'' ''B01'') (Inl (Rejected ''unused'')) neverConnected)) = []"
    using now [THEN conjunct1] l by simp_all
  have 3: "isRequestSecure
        (snd (initializeMessageClientForLocal
           (stopService (snd (pauseClean
              (snd (initializeMessageClientForLocal connectedService
                 (vacuum ''test-duid'' ''B01'') (Inl (Rejected ''unused'')) neverConnected))
              (Inr ()) ''test-duid'')))
           (vacuum ''duid-2'' ''1.0'') (Inr None) neverConnected))
        ''test-duid''"
    using now [THEN conjunct2, rule_format, OF conjI [OF k e], THEN conjunct1]
    by (simp only: d)
  from h1 1 2 3 show ?thesis by (intro conjI)
qed

text \<open>
  C6 as stated fails: on a service without a message client the same \<open>B01\<close> vacuum is
  refused, and no flag is set.
\<close>

theorem cloud_only_device_counterexample:
  "pv (vacuum ''test-duid'' ''B01'') = ''B01''
   \<and> fst (initializeMessageClientForLocal testService (vacuum ''test-duid'' ''B01'')
          (Inr None) neverConnected) = False
   \<and> \<not> isRequestSecure (snd (initializeMessageClientForLocal testService
          (vacuum ''test-duid'' ''B01'') (Inr None) neverConnected)) ''test-duid''"
  by (simp add: fixture_defs2 initializeMessageClientForLocal_def isRequestSecure_def Let_def)

end
